theory Spec2Isabelle
  imports Main
begin

section \<open>Python strings and dictionaries\<close>

text \<open>
  Strings are \<open>char list\<close> and are read as ASCII text. The helpers below are the
  Python built-ins that \<open>coordinator.py\<close> calls on strings, written out for ASCII.
\<close>

definition py_isspace :: "char \<Rightarrow> bool" where
  \<comment> \<open>\<open>str.isspace\<close> on ASCII: TAB, LF, VT, FF, CR, FS, GS, RS, US and the space.\<close>
  "py_isspace c = (let n = (of_char c :: nat) in (9 \<le> n \<and> n \<le> 13) \<or> (28 \<le> n \<and> n \<le> 32))"

definition py_strip :: "string \<Rightarrow> string" where
  \<comment> \<open>\<open>s.strip()\<close>\<close>
  "py_strip s = rev (dropWhile py_isspace (rev (dropWhile py_isspace s)))"

definition py_rstrip :: "string \<Rightarrow> string \<Rightarrow> string" where
  \<comment> \<open>\<open>s.rstrip(chars)\<close>\<close>
  "py_rstrip chars s = rev (dropWhile (\<lambda>c. c \<in> set chars) (rev s))"

fun py_split :: "nat \<Rightarrow> string \<Rightarrow> string list" where
  \<comment> \<open>\<open>s.split(" ", maxsplit)\<close>: cut at single spaces, at most \<open>maxsplit\<close> times.\<close>
  "py_split 0 s = [s]"
| "py_split (Suc n) s =
     (if CHR '' '' \<in> set s
      then takeWhile (\<lambda>c. c \<noteq> CHR '' '') s # py_split n (tl (dropWhile (\<lambda>c. c \<noteq> CHR '' '') s))
      else [s])"

definition py_upper_char :: "char \<Rightarrow> char" where
  "py_upper_char c =
     (let n = (of_char c :: nat) in if 97 \<le> n \<and> n \<le> 122 then char_of (n - 32) else c)"

definition py_upper :: "string \<Rightarrow> string" where
  \<comment> \<open>\<open>s.upper()\<close>\<close>
  "py_upper s = map py_upper_char s"

fun py_lines :: "string \<Rightarrow> string \<Rightarrow> string list" where
  \<comment> \<open>\<open>for line in f\<close> on a text file opened with universal newlines: a line ends at
      LF, CR or CR LF; a last line without terminator is yielded too. The first argument
      is the line read so far. The terminator itself is left out of the yielded line
      (every reader here strips it).\<close>
  "py_lines cur [] = (if cur = [] then [] else [cur])"
| "py_lines cur (c # cs) =
     (if c = CHR 0x0A then cur # py_lines [] cs
      else if c = CHR 0x0D then
        (case cs of
           [] \<Rightarrow> [cur]
         | d # ds \<Rightarrow> if d = CHR 0x0A then cur # py_lines [] ds else cur # py_lines [] cs)
      else py_lines (cur @ [c]) cs)"

text \<open>
  A Python \<open>dict\<close> keeps its keys in insertion order: an association list with at most
  one pair for a key. \<open>d[k] = v\<close> replaces the value in place or adds the pair at the
  end; \<open>d.setdefault(k, v)\<close> adds the pair only when the key is missing.
\<close>

type_synonym ('k, 'v) dict = "('k \<times> 'v) list"

fun dict_set :: "'k \<Rightarrow> 'v \<Rightarrow> ('k, 'v) dict \<Rightarrow> ('k, 'v) dict" where
  "dict_set k v [] = [(k, v)]"
| "dict_set k v (p # ps) = (if fst p = k then (k, v) # ps else p # dict_set k v ps)"

definition dict_get :: "('k, 'v) dict \<Rightarrow> 'k \<Rightarrow> 'v option" where
  "dict_get d k = map_of d k"

definition setdefault :: "'k \<Rightarrow> 'v \<Rightarrow> ('k, 'v) dict \<Rightarrow> ('k, 'v) dict" where
  "setdefault k v d = (case dict_get d k of None \<Rightarrow> d @ [(k, v)] | Some _ \<Rightarrow> d)"

section \<open>JSON values and their Python rendering\<close>

text \<open>
  What \<open>json.loads\<close> returns. A float is carried by its Python \<open>repr\<close>, which the
  coordinator never inspects.
\<close>

datatype json =
    JNull
  | JBool bool
  | JInt int
  | JFloat string
  | JStr string
  | JList "json list"
  | JObj "(string \<times> json) list"

fun py_str_nat :: "nat \<Rightarrow> string" where
  "py_str_nat n =
     (if n < 10 then [''0123456789'' ! n]
      else py_str_nat (n div 10) @ [''0123456789'' ! (n mod 10)])"

declare py_str_nat.simps [simp del]

definition py_str_int :: "int \<Rightarrow> string" where
  "py_str_int i = (if i < 0 then CHR ''-'' # py_str_nat (nat (- i)) else py_str_nat (nat i))"

definition hex2 :: "nat \<Rightarrow> string" where
  "hex2 n = [''0123456789abcdef'' ! (n div 16 mod 16), ''0123456789abcdef'' ! (n mod 16)]"

definition py_escape :: "char \<Rightarrow> char \<Rightarrow> string" where
  \<comment> \<open>One character inside \<open>repr\<close> of a string quoted with \<open>q\<close>.\<close>
  "py_escape q c =
     (let n = (of_char c :: nat) in
      if c = q \<or> c = CHR 0x5C then [CHR 0x5C, c]
      else if c = CHR 0x09 then [CHR 0x5C, CHR ''t'']
      else if c = CHR 0x0A then [CHR 0x5C, CHR ''n'']
      else if c = CHR 0x0D then [CHR 0x5C, CHR ''r'']
      else if n < 32 \<or> 127 \<le> n then [CHR 0x5C, CHR ''x''] @ hex2 n
      else [c])"

definition py_repr_str :: "string \<Rightarrow> string" where
  \<comment> \<open>\<open>repr(s)\<close>: single quotes, unless the string has a single quote and no double
      quote.\<close>
  "py_repr_str s =
     (let q = (if CHR 0x27 \<in> set s \<and> CHR 0x22 \<notin> set s then CHR 0x22 else CHR 0x27)
      in q # concat (map (py_escape q) s) @ [q])"

fun py_join :: "string \<Rightarrow> string list \<Rightarrow> string" where
  \<comment> \<open>\<open>sep.join(xs)\<close>\<close>
  "py_join sep [] = []"
| "py_join sep [x] = x"
| "py_join sep (x # y # ys) = x @ sep @ py_join sep (y # ys)"

primrec py_repr :: "json \<Rightarrow> string" where
  "py_repr JNull = ''None''"
| "py_repr (JBool b) = (if b then ''True'' else ''False'')"
| "py_repr (JInt i) = py_str_int i"
| "py_repr (JFloat r) = r"
| "py_repr (JStr s) = py_repr_str s"
| "py_repr (JList xs) = ''['' @ py_join '', '' (map py_repr xs) @ '']''"
| "py_repr (JObj kvs) =
     ''{'' @ py_join '', ''
        (map (\<lambda>kv. py_repr_str (fst kv) @ '': '' @ snd kv) (map (map_prod id py_repr) kvs))
      @ ''}''"

definition py_str :: "json \<Rightarrow> string" where
  \<comment> \<open>\<open>str(x)\<close>: a string is itself, anything else is its \<open>repr\<close>.\<close>
  "py_str x = (case x of JStr s \<Rightarrow> s | _ \<Rightarrow> py_repr x)"

section \<open>The transaction table and the write-ahead log\<close>

text \<open>
  An entry of \<open>TX\<close>. Entries made by \<open>two_pc\<close> and \<open>three_pc\<close> have every key;
  entries made by \<open>replay_wal\<close> have no \<open>protocol\<close>, \<open>op\<close> or \<open>ts\<close> key.
  \<open>decision\<close> is \<open>None\<close> or a string.
\<close>

record tx =
  tx_txid :: string
  tx_protocol :: "string option"
  tx_state :: string
  tx_op :: "json option"
  tx_votes :: "(string, string) dict"
  tx_decision :: "string option"
  tx_participants :: "string list"
  tx_ts :: "nat option"

text \<open>What the coordinator does to the outside, in the order it does it.\<close>

datatype event =
    Wal string             \<comment> \<open>\<open>wal_append(line)\<close>\<close>
  | Rpc string json        \<comment> \<open>\<open>post_json(url, payload)\<close>\<close>
  | Sleep nat              \<comment> \<open>\<open>time.sleep\<close>, in milliseconds\<close>
  | Print string           \<comment> \<open>\<open>print\<close>\<close>

text \<open>
  The module's globals, the WAL file (\<open>None\<close>: the file does not exist), the reading of
  \<open>time.time()\<close>, the number of requests sent so far and the events so far. The model
  is one thread: \<open>lock\<close> is always free. Writing the WAL file never fails.
\<close>

record world =
  NODE_ID :: string
  PARTICIPANTS :: "string list"
  TX :: "(string, tx) dict"
  WAL :: "string option"
  clock :: nat
  calls :: nat
  trace :: "event list"

definition wal_text :: "world \<Rightarrow> string" where
  "wal_text w = (case WAL w of None \<Rightarrow> [] | Some s \<Rightarrow> s)"

definition wal_append :: "string \<Rightarrow> world \<Rightarrow> world" where
  "wal_append line w =
     w\<lparr>WAL := Some (wal_text w @ py_rstrip [CHR 0x0A] line @ [CHR 0x0A]),
       trace := trace w @ [Wal line]\<rparr>"

definition replay_line :: "string \<Rightarrow> world \<Rightarrow> world" where
  \<comment> \<open>The body of the loop of \<open>replay_wal\<close>.\<close>
  "replay_line line w =
     (let parts = py_split 2 (py_strip line) in
      if length parts < 2 then w
      else
        let txid = parts ! 0; state = parts ! 1 in
        w\<lparr>TX := setdefault txid
               \<lparr>tx_txid = txid, tx_protocol = None, tx_state = state, tx_op = None,
                tx_votes = [], tx_decision = None, tx_participants = PARTICIPANTS w,
                tx_ts = None\<rparr>
               (TX w)\<rparr>)"

fun replay_lines :: "string list \<Rightarrow> world \<Rightarrow> world" where
  "replay_lines [] w = w"
| "replay_lines (l # ls) w = replay_lines ls (replay_line l w)"

definition replay_wal :: "world \<Rightarrow> world" where
  "replay_wal w =
     (case WAL w of
        None \<Rightarrow> w
      | Some text \<Rightarrow> replay_lines (py_lines [] text) w)"

section \<open>Requests to participants\<close>

text \<open>
  What the network does with one request: the connection fails, the request times out,
  or the participant answers with a status and a body; the body is the JSON value it
  decodes to, \<open>None\<close> when it is not JSON in UTF-8. \<open>urlopen\<close> raises
  \<open>HTTPError\<close> for a status outside 200..299. The network is a function of the
  number of the request (0 for the first request the coordinator ever sends), its URL and
  its payload, so that a participant may answer differently each time.
\<close>

datatype wire = Refused | TimedOut | Answer nat "json option"

type_synonym net = "nat \<Rightarrow> string \<Rightarrow> json \<Rightarrow> wire"

datatype exn =
    URLError | TimeoutError | HTTPError nat | JSONDecodeError | AttributeError
  | KeyError string

definition jload :: "json option \<Rightarrow> exn + json" where
  "jload b = (case b of None \<Rightarrow> Inl JSONDecodeError | Some j \<Rightarrow> Inr j)"

definition post_json :: "net \<Rightarrow> nat \<Rightarrow> string \<Rightarrow> json \<Rightarrow> exn + (nat \<times> json)" where
  \<comment> \<open>\<open>post_json(url, payload)\<close> as request number \<open>n\<close>; \<open>Inl\<close> is the exception that
      \<open>urlopen\<close> or \<open>jload\<close> raises and \<open>post_json\<close> lets through.\<close>
  "post_json net n url payload =
     (case net n url payload of
        Refused \<Rightarrow> Inl URLError
      | TimedOut \<Rightarrow> Inl TimeoutError
      | Answer status b \<Rightarrow>
          (if 200 \<le> status \<and> status < 300
           then (case jload b of Inl e \<Rightarrow> Inl e | Inr j \<Rightarrow> Inr (status, j))
           else Inl (HTTPError status)))"

definition call_post_json ::
  "net \<Rightarrow> string \<Rightarrow> json \<Rightarrow> world \<Rightarrow> (exn + (nat \<times> json)) \<times> world" where
  \<comment> \<open>A call of \<open>post_json\<close> in a run: the next request number, and the event.\<close>
  "call_post_json net url payload w =
     (post_json net (calls w) url payload,
      w\<lparr>calls := Suc (calls w), trace := trace w @ [Rpc url payload]\<rparr>)"

definition py_get :: "json \<Rightarrow> string \<Rightarrow> json \<Rightarrow> exn + json" where
  \<comment> \<open>\<open>resp.get(k, dflt)\<close>: only a dict has \<open>get\<close>.\<close>
  "py_get resp k dflt =
     (case resp of
        JObj kvs \<Rightarrow> Inr (case dict_get kvs k of None \<Rightarrow> dflt | Some v \<Rightarrow> v)
      | _ \<Rightarrow> Inl AttributeError)"

definition sleep :: "nat \<Rightarrow> world \<Rightarrow> world" where
  "sleep ms w = w\<lparr>trace := trace w @ [Sleep ms]\<rparr>"

definition print_line :: "string \<Rightarrow> world \<Rightarrow> world" where
  "print_line s w = w\<lparr>trace := trace w @ [Print s]\<rparr>"

section \<open>The voting phase\<close>

definition vote_payload :: "string \<Rightarrow> json \<Rightarrow> json" where
  "vote_payload txid op = JObj [(''txid'', JStr txid), (''op'', op)]"

definition ask ::
  "net \<Rightarrow> string \<Rightarrow> string \<Rightarrow> json \<Rightarrow> string \<Rightarrow>
   (string, string) dict \<times> bool \<times> world \<Rightarrow> (string, string) dict \<times> bool \<times> world" where
  \<comment> \<open>The body of the loop over \<open>PARTICIPANTS\<close> in the voting phase, for participant
      \<open>p\<close>; the state is \<open>votes\<close>, \<open>all_yes\<close> and the world.\<close>
  "ask net endpoint txid op p s =
     (case s of (votes, all_yes, w) \<Rightarrow>
      (case call_post_json net (py_rstrip ''/'' p @ endpoint) (vote_payload txid op) w of
         (Inl e, w1) \<Rightarrow> (dict_set p ''NO_TIMEOUT'' votes, False, w1)
       | (Inr (status, resp), w1) \<Rightarrow>
           (case py_get resp ''vote'' (JStr ''NO'') of
              Inl e \<Rightarrow> (dict_set p ''NO_TIMEOUT'' votes, False, w1)
            | Inr v \<Rightarrow>
                (let vote = py_upper (py_str v) in
                 (dict_set p vote votes, (if vote \<noteq> ''YES'' then False else all_yes), w1)))))"

fun collect_votes ::
  "net \<Rightarrow> string \<Rightarrow> string \<Rightarrow> json \<Rightarrow> string list \<Rightarrow>
   (string, string) dict \<times> bool \<times> world \<Rightarrow> (string, string) dict \<times> bool \<times> world" where
  "collect_votes net endpoint txid op [] s = s"
| "collect_votes net endpoint txid op (p # ps) s =
     collect_votes net endpoint txid op ps (ask net endpoint txid op p s)"

section \<open>Delivery with retries\<close>

fun attempts :: "net \<Rightarrow> string \<Rightarrow> json \<Rightarrow> string \<Rightarrow> nat \<Rightarrow> world \<Rightarrow> world" where
  \<comment> \<open>\<open>for i in range(retries)\<close> with the iterations that are left: in the iteration
      \<open>Suc k\<close> the index is \<open>i = retries - Suc k\<close>, and \<open>i == retries - 1\<close> is
      \<open>k = 0\<close>.\<close>
  "attempts net url payload msg 0 w = w"
| "attempts net url payload msg (Suc k) w =
     (case call_post_json net url payload w of
        (Inr r, w1) \<Rightarrow> w1
      | (Inl e, w1) \<Rightarrow>
          (let w2 = sleep 500 w1;
               w3 = (if k = 0 then print_line msg w2 else w2)
           in attempts net url payload msg k w3))"

definition deliver :: "net \<Rightarrow> string \<Rightarrow> string \<Rightarrow> string \<Rightarrow> world \<Rightarrow> world" where
  \<comment> \<open>The body of a delivery loop over \<open>PARTICIPANTS\<close>, for participant \<open>p\<close>.\<close>
  "deliver net endpoint txid p w =
     (let retries = 3 in
      attempts net (py_rstrip ''/'' p @ endpoint) (JObj [(''txid'', JStr txid)])
        (''['' @ NODE_ID w @ ''] Failed to send '' @ endpoint @ '' to '' @ p
           @ '' after '' @ py_str_nat retries @ '' retries'')
        retries w)"

fun broadcast :: "net \<Rightarrow> string \<Rightarrow> string \<Rightarrow> string list \<Rightarrow> world \<Rightarrow> world" where
  "broadcast net endpoint txid [] w = w"
| "broadcast net endpoint txid (p # ps) w =
     broadcast net endpoint txid ps (deliver net endpoint txid p w)"

section \<open>The two protocols\<close>

definition tx_update :: "string \<Rightarrow> (tx \<Rightarrow> tx) \<Rightarrow> world \<Rightarrow> exn + world" where
  \<comment> \<open>Assignments \<open>TX[txid][key] = value\<close> under the lock: \<open>TX[txid]\<close> raises
      \<open>KeyError\<close> when the table has no such entry.\<close>
  "tx_update txid f w =
     (case dict_get (TX w) txid of
        None \<Rightarrow> Inl (KeyError txid)
      | Some t \<Rightarrow> Inr (w\<lparr>TX := dict_set txid (f t) (TX w)\<rparr>))"

definition votes_json :: "(string, string) dict \<Rightarrow> json" where
  "votes_json votes = JObj (map (map_prod id JStr) votes)"

record result =
  ok :: bool
  r_txid :: string
  r_protocol :: string
  r_decision :: string
  r_votes :: "(string, string) dict"

definition two_pc :: "net \<Rightarrow> world \<Rightarrow> string \<Rightarrow> json \<Rightarrow> exn + (world \<times> result)" where
  "two_pc net w txid op =
     (let w1 = w\<lparr>TX := dict_set txid
                 \<lparr>tx_txid = txid, tx_protocol = Some ''2PC'', tx_state = ''PREPARE_SENT'',
                  tx_op = Some op, tx_votes = [], tx_decision = None,
                  tx_participants = PARTICIPANTS w, tx_ts = Some (clock w)\<rparr>
                 (TX w)\<rparr>;
          w2 = wal_append (txid @ '' PREPARE_SENT '' @ py_str op) w1
      in case collect_votes net ''/prepare'' txid op (PARTICIPANTS w2) ([], True, w2) of
        (votes, all_yes, w3) \<Rightarrow>
       (let decision = (if all_yes then ''COMMIT'' else ''ABORT'') in
        case tx_update txid
               (\<lambda>t. t\<lparr>tx_votes := votes, tx_decision := Some decision,
                      tx_state := decision @ ''_SENT''\<rparr>) w3 of
          Inl e \<Rightarrow> Inl e
        | Inr w4 \<Rightarrow>
           (let w5 = wal_append
                       (txid @ '' '' @ decision @ ''_SENT '' @ py_str (votes_json votes)) w4;
                endpoint = (if decision = ''COMMIT'' then ''/commit'' else ''/abort'');
                w6 = broadcast net endpoint txid (PARTICIPANTS w5) w5
            in case tx_update txid (\<lambda>t. t\<lparr>tx_state := ''DONE''\<rparr>) w6 of
                 Inl e \<Rightarrow> Inl e
               | Inr w7 \<Rightarrow>
                   Inr (wal_append (txid @ '' DONE'') w7,
                        \<lparr>ok = True, r_txid = txid, r_protocol = ''2PC'',
                         r_decision = decision, r_votes = votes\<rparr>))))"

definition three_pc_abort ::
  "net \<Rightarrow> world \<Rightarrow> string \<Rightarrow> (string, string) dict \<Rightarrow> exn + (world \<times> result)" where
  \<comment> \<open>The branch \<open>if not all_yes\<close> of \<open>three_pc\<close>.\<close>
  "three_pc_abort net w txid votes =
     (case tx_update txid
             (\<lambda>t. t\<lparr>tx_decision := Some ''ABORT'', tx_state := ''ABORT_SENT''\<rparr>) w of
        Inl e \<Rightarrow> Inl e
      | Inr w1 \<Rightarrow>
         (let w2 = wal_append (txid @ '' ABORT_SENT '' @ py_str (votes_json votes)) w1;
              w3 = broadcast net ''/abort'' txid (PARTICIPANTS w2) w2
          in case tx_update txid (\<lambda>t. t\<lparr>tx_state := ''DONE''\<rparr>) w3 of
               Inl e \<Rightarrow> Inl e
             | Inr w4 \<Rightarrow>
                 Inr (wal_append (txid @ '' DONE'') w4,
                      \<lparr>ok = True, r_txid = txid, r_protocol = ''3PC'',
                       r_decision = ''ABORT'', r_votes = votes\<rparr>)))"

definition three_pc_commit ::
  "net \<Rightarrow> world \<Rightarrow> string \<Rightarrow> (string, string) dict \<Rightarrow> exn + (world \<times> result)" where
  \<comment> \<open>The rest of \<open>three_pc\<close>, when \<open>all_yes\<close> holds.\<close>
  "three_pc_commit net w txid votes =
     (case tx_update txid
             (\<lambda>t. t\<lparr>tx_decision := Some ''PRECOMMIT'', tx_state := ''PRECOMMIT_SENT''\<rparr>) w of
        Inl e \<Rightarrow> Inl e
      | Inr w1 \<Rightarrow>
         (let w2 = wal_append (txid @ '' PRECOMMIT_SENT'') w1;
              w3 = broadcast net ''/precommit'' txid (PARTICIPANTS w2) w2;
              w4 = sleep 2000 w3
          in case tx_update txid
                    (\<lambda>t. t\<lparr>tx_decision := Some ''COMMIT'', tx_state := ''DOCOMMIT_SENT''\<rparr>)
                    w4 of
               Inl e \<Rightarrow> Inl e
             | Inr w5 \<Rightarrow>
                (let w6 = wal_append (txid @ '' DOCOMMIT_SENT'') w5;
                     w7 = broadcast net ''/commit'' txid (PARTICIPANTS w6) w6
                 in case tx_update txid (\<lambda>t. t\<lparr>tx_state := ''DONE''\<rparr>) w7 of
                      Inl e \<Rightarrow> Inl e
                    | Inr w8 \<Rightarrow>
                        Inr (wal_append (txid @ '' DONE'') w8,
                             \<lparr>ok = True, r_txid = txid, r_protocol = ''3PC'',
                              r_decision = ''COMMIT'', r_votes = votes\<rparr>))))"

definition three_pc :: "net \<Rightarrow> world \<Rightarrow> string \<Rightarrow> json \<Rightarrow> exn + (world \<times> result)" where
  "three_pc net w txid op =
     (let w1 = w\<lparr>TX := dict_set txid
                 \<lparr>tx_txid = txid, tx_protocol = Some ''3PC'', tx_state = ''CAN_COMMIT_SENT'',
                  tx_op = Some op, tx_votes = [], tx_decision = None,
                  tx_participants = PARTICIPANTS w, tx_ts = Some (clock w)\<rparr>
                 (TX w)\<rparr>;
          w2 = wal_append (txid @ '' CAN_COMMIT_SENT '' @ py_str op) w1
      in case collect_votes net ''/can_commit'' txid op (PARTICIPANTS w2) ([], True, w2) of
        (votes, all_yes, w3) \<Rightarrow>
       (case tx_update txid (\<lambda>t. t\<lparr>tx_votes := votes\<rparr>) w3 of
          Inl e \<Rightarrow> Inl e
        | Inr w4 \<Rightarrow>
            if \<not> all_yes then three_pc_abort net w4 txid votes
            else three_pc_commit net w4 txid votes))"

section \<open>Notions used in the statements\<close>

definition ballot :: "net \<Rightarrow> string \<Rightarrow> string \<Rightarrow> json \<Rightarrow> nat \<Rightarrow> string \<Rightarrow> string" where
  \<comment> \<open>The vote that the voting loop records for participant \<open>p\<close> when its request is
      request number \<open>n\<close>.\<close>
  "ballot net endpoint txid op n p =
     (case post_json net n (py_rstrip ''/'' p @ endpoint) (vote_payload txid op) of
        Inl e \<Rightarrow> ''NO_TIMEOUT''
      | Inr (status, resp) \<Rightarrow>
          (case py_get resp ''vote'' (JStr ''NO'') of
             Inl e \<Rightarrow> ''NO_TIMEOUT''
           | Inr v \<Rightarrow> py_upper (py_str v)))"

fun ballots ::
  "net \<Rightarrow> string \<Rightarrow> string \<Rightarrow> json \<Rightarrow> nat \<Rightarrow> string list \<Rightarrow> (string \<times> string) list" where
  \<comment> \<open>The votes of a whole voting phase that starts at request number \<open>n\<close>: one pair
      for every request, in the order of the requests.\<close>
  "ballots net endpoint txid op n [] = []"
| "ballots net endpoint txid op n (p # ps) =
     (p, ballot net endpoint txid op n p) # ballots net endpoint txid op (Suc n) ps"

fun record_all :: "(string, string) dict \<Rightarrow> (string \<times> string) list \<Rightarrow> (string, string) dict" where
  \<comment> \<open>\<open>votes[p] = vote\<close> for every pair, in order.\<close>
  "record_all votes [] = votes"
| "record_all votes (pb # bs) = record_all (dict_set (fst pb) (snd pb) votes) bs"

definition all_yes_of :: "(string \<times> string) list \<Rightarrow> bool" where
  "all_yes_of bs = list_all (\<lambda>pb. snd pb = ''YES'') bs"

definition ends_with :: "string \<Rightarrow> string \<Rightarrow> bool" where
  "ends_with s url = (length s \<le> length url \<and> drop (length url - length s) url = s)"

definition rpc_to :: "string \<Rightarrow> event \<Rightarrow> bool" where
  \<comment> \<open>The event is a request to a URL that ends with the endpoint.\<close>
  "rpc_to endpoint e = (case e of Rpc url payload \<Rightarrow> ends_with endpoint url | _ \<Rightarrow> False)"

fun written :: "event list \<Rightarrow> string list" where
  \<comment> \<open>The lines given to \<open>wal_append\<close>, in order.\<close>
  "written [] = []"
| "written (Wal l # es) = l # written es"
| "written (e # es) = written es"

definition stored :: "world \<Rightarrow> string \<Rightarrow> tx option" where
  \<comment> \<open>\<open>TX.get(txid)\<close>\<close>
  "stored w txid = dict_get (TX w) txid"

definition after :: "exn + (world \<times> result) \<Rightarrow> world \<Rightarrow> world" where
  \<comment> \<open>The world after a run; the given world if the run raised.\<close>
  "after run w = (case run of Inr (w', r) \<Rightarrow> w' | Inl e \<Rightarrow> w)"

definition returned :: "exn + (world \<times> result) \<Rightarrow> result option" where
  \<comment> \<open>What a run returns; \<open>None\<close> if it raised.\<close>
  "returned run = (case run of Inr (w', r) \<Rightarrow> Some r | Inl e \<Rightarrow> None)"

definition line_key :: "string \<Rightarrow> string option" where
  \<comment> \<open>The txid that \<open>replay_wal\<close> reads from a line; \<open>None\<close> for a line it skips.\<close>
  "line_key line =
     (let parts = py_split 2 (py_strip line) in
      if length parts < 2 then None else Some (parts ! 0))"

definition line_state :: "string \<Rightarrow> string option" where
  \<comment> \<open>The state that \<open>replay_wal\<close> reads from a line; \<open>None\<close> for a line it skips.\<close>
  "line_state line =
     (let parts = py_split 2 (py_strip line) in
      if length parts < 2 then None else Some (parts ! 1))"

definition absorbed :: "string \<Rightarrow> world \<Rightarrow> bool" where
  \<comment> \<open>Replaying the line would change nothing: it is skipped, or its txid has an entry.\<close>
  "absorbed l w = (case line_key l of None \<Rightarrow> True | Some k \<Rightarrow> dict_get (TX w) k \<noteq> None)"

text \<open>
  The events of a delivery, as a function of the network alone: what the retry loop does
  when its first request is request number \<open>n\<close>. The lemmas \<open>attempts_eq\<close>,
  \<open>deliver_eq\<close> and \<open>broadcast_eq\<close> show that the loops do exactly this.
\<close>

fun rpcs :: "event list \<Rightarrow> nat" where
  \<comment> \<open>The number of requests among the events.\<close>
  "rpcs [] = 0"
| "rpcs (Rpc url payload # es) = Suc (rpcs es)"
| "rpcs (e # es) = rpcs es"

fun attempt_events :: "net \<Rightarrow> string \<Rightarrow> json \<Rightarrow> string \<Rightarrow> nat \<Rightarrow> nat \<Rightarrow> event list" where
  "attempt_events net url payload msg 0 n = []"
| "attempt_events net url payload msg (Suc k) n =
     (case post_json net n url payload of
        Inr r \<Rightarrow> [Rpc url payload]
      | Inl e \<Rightarrow>
          [Rpc url payload, Sleep 500] @ (if k = 0 then [Print msg] else [])
          @ attempt_events net url payload msg k (Suc n))"

definition deliver_events ::
  "string \<Rightarrow> net \<Rightarrow> string \<Rightarrow> string \<Rightarrow> nat \<Rightarrow> string \<Rightarrow> event list" where
  "deliver_events node net endpoint txid n p =
     attempt_events net (py_rstrip ''/'' p @ endpoint) (JObj [(''txid'', JStr txid)])
       (''['' @ node @ ''] Failed to send '' @ endpoint @ '' to '' @ p
          @ '' after '' @ py_str_nat 3 @ '' retries'')
       3 n"

fun broadcast_events ::
  "string \<Rightarrow> net \<Rightarrow> string \<Rightarrow> string \<Rightarrow> nat \<Rightarrow> string list \<Rightarrow> event list" where
  "broadcast_events node net endpoint txid n [] = []"
| "broadcast_events node net endpoint txid n (p # ps) =
     deliver_events node net endpoint txid n p
     @ broadcast_events node net endpoint txid
         (n + rpcs (deliver_events node net endpoint txid n p)) ps"

definition deliv :: "string \<Rightarrow> event \<Rightarrow> bool" where
  \<comment> \<open>An event of a delivery to the endpoint: no WAL line, and requests only to it.\<close>
  "deliv endpoint e =
     (case e of Rpc url payload \<Rightarrow> ends_with endpoint url | Wal l \<Rightarrow> False | _ \<Rightarrow> True)"

definition gave_up_events :: "string \<Rightarrow> string \<Rightarrow> string \<Rightarrow> string \<Rightarrow> event list" where
  \<comment> \<open>A delivery to \<open>p\<close> in which every attempt fails: three requests, a sleep of 0.5 s
      after each, and the message.\<close>
  "gave_up_events node endpoint txid p =
     [Rpc (py_rstrip ''/'' p @ endpoint) (JObj [(''txid'', JStr txid)]), Sleep 500,
      Rpc (py_rstrip ''/'' p @ endpoint) (JObj [(''txid'', JStr txid)]), Sleep 500,
      Rpc (py_rstrip ''/'' p @ endpoint) (JObj [(''txid'', JStr txid)]), Sleep 500,
      Print (''['' @ node @ ''] Failed to send '' @ endpoint @ '' to '' @ p
             @ '' after 3 retries'')]"

definition vote_rpcs :: "string \<Rightarrow> string \<Rightarrow> json \<Rightarrow> string list \<Rightarrow> event list" where
  \<comment> \<open>The requests of a voting phase.\<close>
  "vote_rpcs endpoint txid op ps =
     map (\<lambda>p. Rpc (py_rstrip ''/'' p @ endpoint) (vote_payload txid op)) ps"

definition wal_record :: "string \<Rightarrow> string" where
  \<comment> \<open>What \<open>wal_append(line)\<close> writes to the file.\<close>
  "wal_record line = py_rstrip [CHR 0x0A] line @ [CHR 0x0A]"

section \<open>Example worlds and networks\<close>

definition w_boot :: world where
  \<comment> \<open>A coordinator that has just started, with three participants and no WAL file.\<close>
  "w_boot = \<lparr>NODE_ID = ''COORD'',
            PARTICIPANTS = [''http://p1'', ''http://p2'', ''http://p3''],
            TX = [], WAL = None, clock = 0, calls = 0, trace = []\<rparr>"

definition vote_reply :: "string \<Rightarrow> wire" where
  "vote_reply v = Answer 200 (Some (JObj [(''vote'', JStr v)]))"

definition net_yes :: net where
  \<comment> \<open>Every participant answers every request, and votes YES.\<close>
  "net_yes n url payload = vote_reply ''YES''"

definition net_down :: net where
  \<comment> \<open>No participant can be reached.\<close>
  "net_down n url payload = Refused"

definition w_crashed :: world where
  \<comment> \<open>\<open>two_pc("t1", {})\<close> has run and committed; then the process has stopped and a
      new one has started on the same WAL file, with an empty table.\<close>
  "w_crashed = (after (two_pc net_yes w_boot ''t1'' (JObj [])) w_boot)\<lparr>TX := []\<rparr>"

definition w_live :: world where
  \<comment> \<open>The WAL file has a line of an earlier process for \<open>t0\<close>; this process has run
      \<open>two_pc("t1", {})\<close>.\<close>
  "w_live =
     after (two_pc net_yes (w_boot\<lparr>WAL := Some (wal_record ''t0 PREPARE_SENT {}'')\<rparr>)
              ''t1'' (JObj []))
       w_boot"

definition w_twice :: world where
  \<comment> \<open>The coordinator was started with \<open>--participants http://a,http://a\<close>.\<close>
  "w_twice = w_boot\<lparr>PARTICIPANTS := [''http://a'', ''http://a'']\<rparr>"

definition net_no_then_yes :: net where
  \<comment> \<open>The first request is answered with the vote NO, every later one with YES.\<close>
  "net_no_then_yes n url payload = vote_reply (if n = 0 then ''NO'' else ''YES'')"

definition net_maybe :: net where
  \<comment> \<open>Every participant answers \<open>{"vote": "maybe"}\<close>.\<close>
  "net_maybe n url payload = vote_reply ''maybe''"



definition starts_with :: "string \<Rightarrow> string \<Rightarrow> bool" where
  "starts_with s url = (take (length s) url = s)"

definition net_p2_down :: net where
  \<comment> \<open>The second participant cannot be reached; the others answer and vote YES.\<close>
  "net_p2_down n url payload =
     (if starts_with ''http://p2/'' url then Refused else vote_reply ''YES'')"

definition net_p2_deaf :: net where
  \<comment> \<open>Everybody votes YES; after that the second participant times out on every
      request.\<close>
  "net_p2_deaf n url payload =
     (if starts_with ''http://p2/'' url \<and> \<not> ends_with ''/can_commit'' url
         \<and> \<not> ends_with ''/prepare'' url
      then TimedOut else vote_reply ''YES'')"

definition net_no_vote :: net where
  \<comment> \<open>Every participant answers with the empty object.\<close>
  "net_no_vote n url payload = Answer 200 (Some (JObj []))"

definition net_not_object :: net where
  \<comment> \<open>Every participant answers with a JSON list.\<close>
  "net_not_object n url payload = Answer 200 (Some (JList [JStr ''YES'']))"

section \<open>Lemmas\<close>

subsection \<open>Dictionaries\<close>

lemma dict_get_dict_set:
  "dict_get (dict_set k v d) k' = (if k' = k then Some v else dict_get d k')"
  by (induction d) (auto simp: dict_get_def)

lemma dict_set_twice: "dict_set k v (dict_set k u d) = dict_set k v d"
  by (induction d) auto

lemma dict_get_None_iff: "dict_get d k = None \<longleftrightarrow> k \<notin> set (map fst d)"
  by (simp add: dict_get_def map_of_eq_None_iff)

lemma dict_get_append_Some: "dict_get d k = Some t \<Longrightarrow> dict_get (d @ new) k = Some t"
  by (simp add: dict_get_def)

lemma setdefault_extends: "\<exists>new. setdefault k v d = d @ new"
  by (simp add: setdefault_def split: option.split)

lemma setdefault_keeps:
  "dict_get d k' = Some t \<Longrightarrow> dict_get (setdefault k v d) k' = Some t"
  by (auto simp: setdefault_def dict_get_def split: option.split)

lemma setdefault_present: "dict_get (setdefault k v d) k \<noteq> None"
  by (auto simp: setdefault_def dict_get_def map_add_def split: option.split)

lemma setdefault_absorbed: "dict_get d k = Some t \<Longrightarrow> setdefault k v d = d"
  by (simp add: setdefault_def)

lemma setdefault_distinct:
  "distinct (map fst d) \<Longrightarrow> distinct (map fst (setdefault k v d))"
  by (auto simp: setdefault_def dict_get_None_iff split: option.split)

subsection \<open>Replay\<close>

lemma replay_line_cases:
  "replay_line l w =
     (case line_key l of
        None \<Rightarrow> w
      | Some k \<Rightarrow>
          w\<lparr>TX := setdefault k
                 \<lparr>tx_txid = k, tx_protocol = None,
                  tx_state = py_split 2 (py_strip l) ! 1, tx_op = None,
                  tx_votes = [], tx_decision = None, tx_participants = PARTICIPANTS w,
                  tx_ts = None\<rparr>
                 (TX w)\<rparr>)"
  by (simp add: replay_line_def line_key_def Let_def)

lemma absorbed_fixed: "absorbed l w \<Longrightarrow> replay_line l w = w"
  by (auto simp: absorbed_def replay_line_cases setdefault_absorbed split: option.splits)

lemma replay_line_absorbs: "absorbed l (replay_line l w)"
  by (auto simp: absorbed_def replay_line_cases setdefault_present split: option.splits)

lemma absorbed_replay_line: "absorbed l w \<Longrightarrow> absorbed l (replay_line m w)"
  by (auto simp: absorbed_def replay_line_cases setdefault_keeps split: option.splits)

lemma absorbed_replay_lines: "absorbed l w \<Longrightarrow> absorbed l (replay_lines ls w)"
  by (induction ls arbitrary: w) (auto simp: absorbed_replay_line)

lemma replay_lines_absorbs: "l \<in> set ls \<Longrightarrow> absorbed l (replay_lines ls w)"
  by (induction ls arbitrary: w) (auto simp: absorbed_replay_lines replay_line_absorbs)

lemma replay_lines_fixed: "(\<And>l. l \<in> set ls \<Longrightarrow> absorbed l w) \<Longrightarrow> replay_lines ls w = w"
  by (induction ls) (auto simp: absorbed_fixed)

lemma replay_lines_twice: "replay_lines ls (replay_lines ls w) = replay_lines ls w"
  by (rule replay_lines_fixed) (rule replay_lines_absorbs)

lemma replay_line_WAL: "WAL (replay_line l w) = WAL w"
  by (simp add: replay_line_cases split: option.split)

lemma replay_lines_WAL: "WAL (replay_lines ls w) = WAL w"
  by (induction ls arbitrary: w) (auto simp: replay_line_WAL)

lemma replay_line_extends: "\<exists>new. TX (replay_line l w) = TX w @ new"
  using setdefault_extends by (fastforce simp: replay_line_cases split: option.split)

lemma replay_lines_extends: "\<exists>new. TX (replay_lines ls w) = TX w @ new"
proof (induction ls arbitrary: w)
  case Nil
  then show ?case by simp
next
  case (Cons l ls)
  obtain a where a: "TX (replay_line l w) = TX w @ a"
    using replay_line_extends by blast
  obtain b where b: "TX (replay_lines ls (replay_line l w)) = TX (replay_line l w) @ b"
    using Cons.IH by blast
  show ?case using a b by simp
qed

lemma replay_wal_extends: "\<exists>new. TX (replay_wal w) = TX w @ new"
  by (cases "WAL w") (simp_all add: replay_wal_def replay_lines_extends)

lemma replay_wal_keeps: "dict_get (TX w) k = Some t \<Longrightarrow> dict_get (TX (replay_wal w)) k = Some t"
  using replay_wal_extends[of w] dict_get_append_Some by fastforce

lemma replay_line_distinct:
  "distinct (map fst (TX w)) \<Longrightarrow> distinct (map fst (TX (replay_line l w)))"
  by (auto simp: replay_line_cases setdefault_distinct split: option.split)

lemma replay_lines_distinct:
  "distinct (map fst (TX w)) \<Longrightarrow> distinct (map fst (TX (replay_lines ls w)))"
  by (induction ls arbitrary: w) (auto simp: replay_line_distinct)

subsection \<open>The loops and the two protocols, as equations\<close>

lemma ask_eq:
  "ask net endpoint txid op p (votes, all_yes, w) =
     (dict_set p (ballot net endpoint txid op (calls w) p) votes,
      all_yes \<and> ballot net endpoint txid op (calls w) p = ''YES'',
      w\<lparr>calls := Suc (calls w),
        trace := trace w @ [Rpc (py_rstrip ''/'' p @ endpoint) (vote_payload txid op)]\<rparr>)"
  by (auto simp: ask_def ballot_def call_post_json_def Let_def split: sum.splits prod.splits)

lemma collect_votes_eq:
  "collect_votes net endpoint txid op ps (votes, all_yes, w) =
     (record_all votes (ballots net endpoint txid op (calls w) ps),
      all_yes \<and> all_yes_of (ballots net endpoint txid op (calls w) ps),
      w\<lparr>calls := calls w + length ps,
        trace := trace w @ vote_rpcs endpoint txid op ps\<rparr>)"
proof (induction ps arbitrary: votes all_yes w)
  case Nil
  then show ?case by (simp add: all_yes_of_def vote_rpcs_def)
next
  case (Cons p ps)
  show ?case
    by (simp add: ask_eq Cons.IH all_yes_of_def vote_rpcs_def conj_ac)
qed

lemma rpcs_append: "rpcs (xs @ ys) = rpcs xs + rpcs ys"
  by (induction xs rule: rpcs.induct) auto

lemma attempts_eq:
  "attempts net url pl msg k w =
     w\<lparr>calls := calls w + rpcs (attempt_events net url pl msg k (calls w)),
       trace := trace w @ attempt_events net url pl msg k (calls w)\<rparr>"
proof (induction k arbitrary: w)
  case 0
  then show ?case by simp
next
  case (Suc k)
  show ?case
    by (cases "post_json net (calls w) url pl")
       (simp_all add: call_post_json_def sleep_def print_line_def Suc.IH rpcs_append)
qed

lemma deliver_eq:
  "deliver net endpoint txid p w =
     w\<lparr>calls := calls w + rpcs (deliver_events (NODE_ID w) net endpoint txid (calls w) p),
       trace := trace w @ deliver_events (NODE_ID w) net endpoint txid (calls w) p\<rparr>"
  by (simp add: deliver_def deliver_events_def Let_def attempts_eq)

lemma broadcast_eq:
  "broadcast net endpoint txid ps w =
     w\<lparr>calls := calls w + rpcs (broadcast_events (NODE_ID w) net endpoint txid (calls w) ps),
       trace := trace w @ broadcast_events (NODE_ID w) net endpoint txid (calls w) ps\<rparr>"
proof (induction ps arbitrary: w)
  case Nil
  then show ?case by simp
next
  case (Cons p ps)
  show ?case
    by (simp add: deliver_eq Cons.IH rpcs_append add.assoc)
qed

lemma two_pc_eq:
  "two_pc net w txid op =
     (let ps = PARTICIPANTS w;
          bs = ballots net ''/prepare'' txid op (calls w) ps;
          votes = record_all [] bs;
          d = (if all_yes_of bs then ''COMMIT'' else ''ABORT'');
          l1 = txid @ '' PREPARE_SENT '' @ py_str op;
          l2 = txid @ '' '' @ d @ ''_SENT '' @ py_str (votes_json votes);
          l3 = txid @ '' DONE'';
          D = broadcast_events (NODE_ID w) net (if all_yes_of bs then ''/commit'' else ''/abort'')
                txid (calls w + length ps) ps
      in Inr (w\<lparr>TX := dict_set txid
                   \<lparr>tx_txid = txid, tx_protocol = Some ''2PC'', tx_state = ''DONE'',
                    tx_op = Some op, tx_votes = votes, tx_decision = Some d,
                    tx_participants = ps, tx_ts = Some (clock w)\<rparr> (TX w),
                WAL := Some (wal_text w @ wal_record l1 @ wal_record l2 @ wal_record l3),
                calls := calls w + length ps + rpcs D,
                trace := trace w @ [Wal l1] @ vote_rpcs ''/prepare'' txid op ps @ [Wal l2] @ D
                         @ [Wal l3]\<rparr>,
              \<lparr>ok = True, r_txid = txid, r_protocol = ''2PC'', r_decision = d,
               r_votes = votes\<rparr>))"
  by (simp add: two_pc_def Let_def collect_votes_eq broadcast_eq tx_update_def
      dict_get_dict_set dict_set_twice wal_append_def wal_text_def wal_record_def)

lemma three_pc_eq:
  "three_pc net w txid op =
     (let ps = PARTICIPANTS w;
          bs = ballots net ''/can_commit'' txid op (calls w) ps;
          votes = record_all [] bs;
          l1 = txid @ '' CAN_COMMIT_SENT '' @ py_str op;
          n1 = calls w + length ps
      in if all_yes_of bs then
           (let P = broadcast_events (NODE_ID w) net ''/precommit'' txid n1 ps;
                C = broadcast_events (NODE_ID w) net ''/commit'' txid (n1 + rpcs P) ps
            in Inr (w\<lparr>TX := dict_set txid
                   \<lparr>tx_txid = txid, tx_protocol = Some ''3PC'', tx_state = ''DONE'',
                    tx_op = Some op, tx_votes = votes, tx_decision = Some ''COMMIT'',
                    tx_participants = ps, tx_ts = Some (clock w)\<rparr> (TX w),
                WAL := Some (wal_text w @ wal_record l1 @ wal_record (txid @ '' PRECOMMIT_SENT'')
                         @ wal_record (txid @ '' DOCOMMIT_SENT'') @ wal_record (txid @ '' DONE'')),
                calls := n1 + rpcs P + rpcs C,
                trace := trace w @ [Wal l1] @ vote_rpcs ''/can_commit'' txid op ps
                         @ [Wal (txid @ '' PRECOMMIT_SENT'')] @ P
                         @ [Sleep 2000, Wal (txid @ '' DOCOMMIT_SENT'')] @ C
                         @ [Wal (txid @ '' DONE'')]\<rparr>,
              \<lparr>ok = True, r_txid = txid, r_protocol = ''3PC'', r_decision = ''COMMIT'',
               r_votes = votes\<rparr>))
         else
           (let A = broadcast_events (NODE_ID w) net ''/abort'' txid n1 ps
            in Inr (w\<lparr>TX := dict_set txid
                   \<lparr>tx_txid = txid, tx_protocol = Some ''3PC'', tx_state = ''DONE'',
                    tx_op = Some op, tx_votes = votes, tx_decision = Some ''ABORT'',
                    tx_participants = ps, tx_ts = Some (clock w)\<rparr> (TX w),
                WAL := Some (wal_text w @ wal_record l1
                         @ wal_record (txid @ '' ABORT_SENT '' @ py_str (votes_json votes))
                         @ wal_record (txid @ '' DONE'')),
                calls := n1 + rpcs A,
                trace := trace w @ [Wal l1] @ vote_rpcs ''/can_commit'' txid op ps
                         @ [Wal (txid @ '' ABORT_SENT '' @ py_str (votes_json votes))] @ A
                         @ [Wal (txid @ '' DONE'')]\<rparr>,
              \<lparr>ok = True, r_txid = txid, r_protocol = ''3PC'', r_decision = ''ABORT'',
               r_votes = votes\<rparr>)))"
  by (simp add: three_pc_def three_pc_abort_def three_pc_commit_def Let_def collect_votes_eq
      broadcast_eq tx_update_def sleep_def
      dict_get_dict_set dict_set_twice wal_append_def wal_text_def wal_record_def)

subsection \<open>The requests and lines of a run\<close>

lemma ends_with_append: "ends_with s (b @ s)"
  by (simp add: ends_with_def)

lemma attempt_events_deliv:
  "ends_with endpoint url \<Longrightarrow> e \<in> set (attempt_events net url pl msg k n) \<Longrightarrow> deliv endpoint e"
  by (induction k arbitrary: n) (auto simp: deliv_def split: sum.splits if_splits)

lemma deliver_events_deliv:
  "e \<in> set (deliver_events node net endpoint txid n p) \<Longrightarrow> deliv endpoint e"
  unfolding deliver_events_def
  by (rule attempt_events_deliv[OF ends_with_append])

lemma broadcast_events_deliv:
  "e \<in> set (broadcast_events node net endpoint txid n ps) \<Longrightarrow> deliv endpoint e"
  by (induction ps arbitrary: n) (auto dest: deliver_events_deliv)

lemma vote_rpcs_deliv: "e \<in> set (vote_rpcs endpoint txid op ps) \<Longrightarrow> deliv endpoint e"
  by (auto simp: vote_rpcs_def deliv_def ends_with_append)

lemma written_append: "written (xs @ ys) = written xs @ written ys"
  by (induction xs rule: written.induct) auto

lemma written_deliv: "\<forall>e\<in>set xs. deliv endpoint e \<Longrightarrow> written xs = []"
  by (induction xs rule: written.induct) (auto simp: deliv_def)

lemma deliv_rpc_to: "deliv a e \<Longrightarrow> rpc_to b e \<Longrightarrow> \<exists>url. ends_with a url \<and> ends_with b url"
  by (auto simp: deliv_def rpc_to_def split: event.splits)

lemma ends_with_iff: "ends_with s url \<longleftrightarrow> (\<exists>b. url = b @ s)"
  by (metis append_eq_conv_conj append_take_drop_id diff_add_inverse2 ends_with_def le_add2 length_append)

lemma not_both_1: "\<not> (ends_with ''/prepare'' url \<and> ends_with ''/commit'' url)"
  by (auto simp: ends_with_iff)
lemma not_both_2: "\<not> (ends_with ''/prepare'' url \<and> ends_with ''/abort'' url)"
  by (auto simp: ends_with_iff)
lemma not_both_3: "\<not> (ends_with ''/can_commit'' url \<and> ends_with ''/commit'' url)"
  by (auto simp: ends_with_iff)
lemma not_both_4: "\<not> (ends_with ''/can_commit'' url \<and> ends_with ''/abort'' url)"
  by (auto simp: ends_with_iff)
lemma not_both_5: "\<not> (ends_with ''/can_commit'' url \<and> ends_with ''/precommit'' url)"
  by (auto simp: ends_with_iff)
lemma not_both_6: "\<not> (ends_with ''/precommit'' url \<and> ends_with ''/commit'' url)"
  by (auto simp: ends_with_iff)
lemma not_both_7: "\<not> (ends_with ''/abort'' url \<and> ends_with ''/commit'' url)"
  by (auto simp: ends_with_iff)
lemma not_both_8: "\<not> (ends_with ''/abort'' url \<and> ends_with ''/precommit'' url)"
  by (auto simp: ends_with_iff)

subsection \<open>The votes map\<close>

lemma dict_set_mem: "pv \<in> set (dict_set k x d) \<Longrightarrow> pv = (k, x) \<or> pv \<in> set d"
  by (induction d) (auto split: if_splits)

lemma record_all_mem: "pv \<in> set (record_all votes bs) \<Longrightarrow> pv \<in> set votes \<or> pv \<in> set bs"
proof (induction bs arbitrary: votes)
  case Nil
  then show ?case by simp
next
  case (Cons pb bs)
  from Cons.prems have "pv \<in> set (record_all (dict_set (fst pb) (snd pb) votes) bs)" by simp
  then have "pv \<in> set (dict_set (fst pb) (snd pb) votes) \<or> pv \<in> set bs" by (rule Cons.IH)
  then show ?case using dict_set_mem[of pv "fst pb" "snd pb" votes] by auto
qed

lemma dict_set_absent: "k \<notin> set (map fst d) \<Longrightarrow> dict_set k v d = d @ [(k, v)]"
  by (induction d) auto

lemma record_all_distinct:
  "distinct (map fst bs) \<Longrightarrow> set (map fst votes) \<inter> set (map fst bs) = {}
   \<Longrightarrow> record_all votes bs = votes @ bs"
proof (induction bs arbitrary: votes)
  case Nil
  then show ?case by simp
next
  case (Cons pb bs)
  have absent: "fst pb \<notin> set (map fst votes)" using Cons.prems(2) by auto
  have "record_all (votes @ [pb]) bs = (votes @ [pb]) @ bs"
    using Cons.prems by (intro Cons.IH) auto
  then show ?case using absent by (simp add: dict_set_absent)
qed

lemma keys_ballots: "map fst (ballots net endpoint txid op n ps) = ps"
  by (induction ps arbitrary: n) auto

lemma dict_get_append:
  "dict_get (xs @ ys) p = (case dict_get xs p of Some v \<Rightarrow> Some v | None \<Rightarrow> dict_get ys p)"
  by (simp add: dict_get_def map_add_def split: option.split)

lemma dict_get_single: "dict_get [pb] p = (if fst pb = p then Some (snd pb) else None)"
  by (cases pb) (simp add: dict_get_def)

lemma dict_get_record_all:
  "dict_get (record_all votes bs) p =
     (case dict_get (rev bs) p of Some v \<Rightarrow> Some v | None \<Rightarrow> dict_get votes p)"
proof (induction bs arbitrary: votes)
  case Nil
  then show ?case by (simp add: dict_get_def)
next
  case (Cons pb bs)
  show ?case
    by (simp add: Cons.IH dict_get_dict_set dict_get_append dict_get_single split: option.split)
qed

lemma all_yes_recorded:
  assumes "all_yes_of bs" "p \<in> set (map fst bs)"
  shows "dict_get (record_all votes bs) p = Some ''YES''"
proof -
  have "p \<in> set (map fst (rev bs))" using assms(2) by simp
  then obtain v where v: "dict_get (rev bs) p = Some v"
    unfolding dict_get_def by (metis map_of_eq_None_iff not_None_eq set_map)
  then have "(p, v) \<in> set bs" unfolding dict_get_def by (metis map_of_SomeD set_rev)
  then have "v = ''YES''" using assms(1) by (auto simp: all_yes_of_def list_all_iff)
  then show ?thesis using v by (simp add: dict_get_record_all)
qed

lemma distinct_all_yes:
  assumes "distinct (map fst bs)" "\<forall>p\<in>set (map fst bs). dict_get bs p = Some ''YES''"
  shows "all_yes_of bs"
proof -
  have "snd pb = ''YES''" if "pb \<in> set bs" for pb
  proof -
    have "dict_get bs (fst pb) = Some (snd pb)"
      unfolding dict_get_def using assms(1) that by (cases pb) simp
    moreover have "dict_get bs (fst pb) = Some ''YES''" using assms(2) that by auto
    ultimately show ?thesis by simp
  qed
  then show ?thesis by (simp add: all_yes_of_def list_all_iff)
qed

lemma ballot_raised:
  "isl (post_json net n (py_rstrip ''/'' p @ endpoint) (vote_payload txid op))
   \<Longrightarrow> ballot net endpoint txid op n p = ''NO_TIMEOUT''"
  by (auto simp: ballot_def isl_def)

lemma ballots_mem:
  "pv \<in> set (ballots net endpoint txid op n ps)
   \<Longrightarrow> \<exists>i<length ps. fst pv = ps ! i \<and> snd pv = ballot net endpoint txid op (n + i) (ps ! i)"
proof (induction ps arbitrary: n)
  case Nil
  then show ?case by simp
next
  case (Cons p ps)
  show ?case
  proof (cases "pv = (p, ballot net endpoint txid op n p)")
    case True
    then have "fst pv = (p # ps) ! 0 \<and> snd pv = ballot net endpoint txid op (n + 0) ((p # ps) ! 0)"
      by simp
    then show ?thesis by blast
  next
    case False
    then have "pv \<in> set (ballots net endpoint txid op (Suc n) ps)" using Cons.prems by simp
    then obtain i where i: "i < length ps" "fst pv = ps ! i"
        "snd pv = ballot net endpoint txid op (Suc n + i) (ps ! i)"
      using Cons.IH by blast
    then have "Suc i < length (p # ps) \<and> fst pv = (p # ps) ! Suc i
        \<and> snd pv = ballot net endpoint txid op (n + Suc i) ((p # ps) ! Suc i)"
      by simp
    then show ?thesis by blast
  qed
qed

lemma recorded_is_ballot:
  "pv \<in> set (record_all [] (ballots net endpoint txid op n ps))
   \<Longrightarrow> \<exists>i<length ps. fst pv = ps ! i \<and> snd pv = ballot net endpoint txid op (n + i) (ps ! i)"
  using record_all_mem[of pv "[]"] ballots_mem by fastforce

subsection \<open>Runs return\<close>

lemma two_pc_returns:
  "\<exists>w' r. two_pc net w txid op = Inr (w', r) \<and> ok r
     \<and> map_option tx_state (stored w' txid) = Some ''DONE''
     \<and> map_option tx_decision (stored w' txid) = Some (Some (r_decision r))
     \<and> (r_decision r = ''COMMIT'' \<or> r_decision r = ''ABORT'')"
  by (simp add: two_pc_eq Let_def stored_def dict_get_dict_set)

lemma three_pc_returns:
  "\<exists>w' r. three_pc net w txid op = Inr (w', r) \<and> ok r
     \<and> map_option tx_state (stored w' txid) = Some ''DONE''
     \<and> map_option tx_decision (stored w' txid) = Some (Some (r_decision r))
     \<and> (r_decision r = ''COMMIT'' \<or> r_decision r = ''ABORT'')"
  by (simp add: three_pc_eq Let_def stored_def dict_get_dict_set)

lemma post_json_isl:
  "isl (post_json net n url pl)
   \<longleftrightarrow> (case net n url pl of
          Answer status (Some j) \<Rightarrow> \<not> (200 \<le> status \<and> status < 300)
        | _ \<Rightarrow> True)"
  by (simp add: post_json_def jload_def split: wire.split option.split)

lemma ask_raised:
  "isl (post_json net (calls w) (py_rstrip ''/'' p @ endpoint) (vote_payload txid op))
   \<Longrightarrow> ask net endpoint txid op p (votes, all_yes, w)
       = (dict_set p ''NO_TIMEOUT'' votes, False,
          w\<lparr>calls := Suc (calls w),
            trace := trace w @ [Rpc (py_rstrip ''/'' p @ endpoint) (vote_payload txid op)]\<rparr>)"
  by (auto simp: ask_def call_post_json_def isl_def)

lemma attempts_raised:
  "isl (post_json net (calls w) url pl)
   \<Longrightarrow> attempts net url pl msg (Suc k) w
       = attempts net url pl msg k
           (w\<lparr>calls := Suc (calls w),
              trace := trace w @ [Rpc url pl, Sleep 500] @ (if k = 0 then [Print msg] else [])\<rparr>)"
  by (auto simp: call_post_json_def isl_def sleep_def print_line_def)




subsection \<open>Positions in a list of events\<close>

lemma logged_first:
  assumes "\<forall>e\<in>set xs. \<not> B e" and "\<not> B a"
  shows "\<forall>i<length (xs @ a # ys). B ((xs @ a # ys) ! i) \<longrightarrow> (\<exists>j<i. (xs @ a # ys) ! j = a)"
proof (intro allI impI)
  fix i
  assume i: "i < length (xs @ a # ys)" and b: "B ((xs @ a # ys) ! i)"
  have "\<not> i < length xs"
  proof
    assume "i < length xs"
    then have "(xs @ a # ys) ! i \<in> set xs" by (simp add: nth_append)
    then show False using assms(1) b by blast
  qed
  moreover have "i \<noteq> length xs"
  proof
    assume "i = length xs"
    then have "(xs @ a # ys) ! i = a" by simp
    then show False using assms(2) b by simp
  qed
  ultimately have "length xs < i" by simp
  moreover have "(xs @ a # ys) ! length xs = a" by simp
  ultimately show "\<exists>j<i. (xs @ a # ys) ! j = a" by blast
qed

lemma never_sent:
  assumes "\<forall>e\<in>set xs. \<not> B e"
  shows "\<forall>i<length xs. B (xs ! i) \<longrightarrow> Q i"
  using assms by simp

lemma deliv_not_rpc_to:
  "deliv a e \<Longrightarrow> (\<And>url. \<not> (ends_with a url \<and> ends_with b url)) \<Longrightarrow> \<not> rpc_to b e"
  using deliv_rpc_to by blast

lemma wal_not_rpc_to: "\<not> rpc_to b (Wal l)"
  by (simp add: rpc_to_def)

lemma sleep_not_rpc_to: "\<not> rpc_to b (Sleep n)"
  by (simp add: rpc_to_def)

subsection \<open>Lines written, failed deliveries\<close>

lemma written_vote_rpcs: "written (vote_rpcs endpoint txid op ps) = []"
  using written_deliv[of "vote_rpcs endpoint txid op ps" endpoint] vote_rpcs_deliv by blast

lemma written_broadcast_events: "written (broadcast_events node net endpoint txid n ps) = []"
  using written_deliv[of "broadcast_events node net endpoint txid n ps" endpoint]
    broadcast_events_deliv by blast

lemma attempt_events_all_fail:
  "isl (post_json net n url pl) \<Longrightarrow> isl (post_json net (n + 1) url pl)
   \<Longrightarrow> isl (post_json net (n + 2) url pl)
   \<Longrightarrow> attempt_events net url pl msg 3 n
       = [Rpc url pl, Sleep 500, Rpc url pl, Sleep 500, Rpc url pl, Sleep 500, Print msg]"
  by (auto simp: numeral_3_eq_3 isl_def)

lemma py_str_nat_3: "py_str_nat 3 = ''3''"
  by code_simp

lemma deliver_events_all_fail:
  "isl (post_json net n (py_rstrip ''/'' p @ endpoint) (JObj [(''txid'', JStr txid)]))
   \<Longrightarrow> isl (post_json net (n + 1) (py_rstrip ''/'' p @ endpoint) (JObj [(''txid'', JStr txid)]))
   \<Longrightarrow> isl (post_json net (n + 2) (py_rstrip ''/'' p @ endpoint) (JObj [(''txid'', JStr txid)]))
   \<Longrightarrow> deliver_events node net endpoint txid n p = gave_up_events node endpoint txid p"
  by (simp add: deliver_events_def gave_up_events_def attempt_events_all_fail py_str_nat_3)

lemma broadcast_events_all_fail:
  "\<forall>n url pl. isl (post_json net n url pl)
   \<Longrightarrow> broadcast_events node net endpoint txid n ps
       = concat (map (gave_up_events node endpoint txid) ps)"
  by (induction ps arbitrary: n) (simp_all add: deliver_events_all_fail)

lemma ballots_all_fail:
  "\<forall>n url pl. isl (post_json net n url pl)
   \<Longrightarrow> all_yes_of (ballots net endpoint txid op n ps) \<longleftrightarrow> ps = []"
  by (cases ps) (simp_all add: all_yes_of_def ballot_raised)

lemma two_pc_all_fail:
  assumes "\<forall>n url pl. isl (post_json net n url pl)"
  shows "\<exists>w' r. two_pc net w txid op = Inr (w', r)
     \<and> trace w' = trace w @ [Wal (txid @ '' PREPARE_SENT '' @ py_str op)]
         @ vote_rpcs ''/prepare'' txid op (PARTICIPANTS w)
         @ [Wal (txid @ '' '' @ r_decision r @ ''_SENT '' @ py_str (votes_json (r_votes r)))]
         @ concat (map (gave_up_events (NODE_ID w) ''/abort'' txid) (PARTICIPANTS w))
         @ [Wal (txid @ '' DONE'')]"
  by (cases "PARTICIPANTS w = []")
     (simp_all add: two_pc_eq Let_def ballots_all_fail[OF assms] broadcast_events_all_fail[OF assms])

subsection \<open>Milestones before requests, in the trace and in the file\<close>

lemma two_pc_wal_first:
  "\<exists>w' r new. two_pc net w txid op = Inr (w', r) \<and> trace w' = trace w @ new
     \<and> wal_text w' = wal_text w @ concat (map wal_record (written new))
     \<and> (\<forall>i<length new. rpc_to ''/commit'' (new ! i)
           \<longrightarrow> (\<exists>j<i. new ! j = Wal (txid @ '' COMMIT_SENT '' @ py_str (votes_json (r_votes r)))))
     \<and> (\<forall>i<length new. rpc_to ''/abort'' (new ! i)
           \<longrightarrow> (\<exists>j<i. new ! j = Wal (txid @ '' ABORT_SENT '' @ py_str (votes_json (r_votes r)))))"
proof -
  define ps where "ps = PARTICIPANTS w"
  define bs where "bs = ballots net ''/prepare'' txid op (calls w) ps"
  define votes where "votes = record_all [] bs"
  define V where "V = vote_rpcs ''/prepare'' txid op ps"
  define l1 where "l1 = txid @ '' PREPARE_SENT '' @ py_str op"
  have V: "\<forall>e\<in>set ([Wal l1] @ V). \<not> rpc_to ''/commit'' e \<and> \<not> rpc_to ''/abort'' e"
    using vote_rpcs_deliv[of _ "''/prepare''" txid op ps] deliv_not_rpc_to not_both_1 not_both_2
    by (auto simp: V_def wal_not_rpc_to)
  show ?thesis
  proof (cases "all_yes_of bs")
    case True
    define D where "D = broadcast_events (NODE_ID w) net ''/commit'' txid (calls w + length ps) ps"
    define a where "a = Wal (txid @ '' COMMIT_SENT '' @ py_str (votes_json votes))"
    define new where "new = ([Wal l1] @ V) @ a # (D @ [Wal (txid @ '' DONE'')])"
    obtain w' where run: "two_pc net w txid op =
        Inr (w', \<lparr>ok = True, r_txid = txid, r_protocol = ''2PC'', r_decision = ''COMMIT'',
                  r_votes = votes\<rparr>)" and tr: "trace w' = trace w @ new"
      and wt: "wal_text w' = wal_text w @ concat (map wal_record (written new))"
      using True
      by (simp add: two_pc_eq Let_def ps_def bs_def votes_def V_def l1_def D_def a_def new_def wal_text_def
          written_append written_vote_rpcs written_broadcast_events)
    have c: "\<forall>i<length new. rpc_to ''/commit'' (new ! i) \<longrightarrow> (\<exists>j<i. new ! j = a)"
      unfolding new_def using V by (intro logged_first) (auto simp: a_def wal_not_rpc_to)
    have "\<forall>e\<in>set new. \<not> rpc_to ''/abort'' e"
      using V broadcast_events_deliv[of _ "NODE_ID w" net "''/commit''" txid "calls w + length ps" ps]
        deliv_not_rpc_to[of "''/commit''" _ "''/abort''"] not_both_7
      by (auto simp: new_def D_def a_def wal_not_rpc_to)
    then have ab: "\<forall>i<length new. rpc_to ''/abort'' (new ! i)
        \<longrightarrow> (\<exists>j<i. new ! j = Wal (txid @ '' ABORT_SENT '' @ py_str (votes_json votes)))"
      by (rule never_sent)
    show ?thesis using run tr wt c ab unfolding a_def by fastforce
  next
    case False
    define D where "D = broadcast_events (NODE_ID w) net ''/abort'' txid (calls w + length ps) ps"
    define a where "a = Wal (txid @ '' ABORT_SENT '' @ py_str (votes_json votes))"
    define new where "new = ([Wal l1] @ V) @ a # (D @ [Wal (txid @ '' DONE'')])"
    obtain w' where run: "two_pc net w txid op =
        Inr (w', \<lparr>ok = True, r_txid = txid, r_protocol = ''2PC'', r_decision = ''ABORT'',
                  r_votes = votes\<rparr>)" and tr: "trace w' = trace w @ new"
      and wt: "wal_text w' = wal_text w @ concat (map wal_record (written new))"
      using False
      by (simp add: two_pc_eq Let_def ps_def bs_def votes_def V_def l1_def D_def a_def new_def wal_text_def
          written_append written_vote_rpcs written_broadcast_events)
    have c: "\<forall>i<length new. rpc_to ''/abort'' (new ! i) \<longrightarrow> (\<exists>j<i. new ! j = a)"
      unfolding new_def using V by (intro logged_first) (auto simp: a_def wal_not_rpc_to)
    have "\<forall>e\<in>set new. \<not> rpc_to ''/commit'' e"
      using V broadcast_events_deliv[of _ "NODE_ID w" net "''/abort''" txid "calls w + length ps" ps]
        deliv_not_rpc_to[of "''/abort''" _ "''/commit''"] not_both_7
      by (auto simp: new_def D_def a_def wal_not_rpc_to)
    then have ab: "\<forall>i<length new. rpc_to ''/commit'' (new ! i)
        \<longrightarrow> (\<exists>j<i. new ! j = Wal (txid @ '' COMMIT_SENT '' @ py_str (votes_json votes)))"
      by (rule never_sent)
    show ?thesis using run tr wt c ab unfolding a_def by fastforce
  qed
qed

lemma three_pc_wal_first:
  "\<exists>w' r new. three_pc net w txid op = Inr (w', r) \<and> trace w' = trace w @ new
     \<and> wal_text w' = wal_text w @ concat (map wal_record (written new))
     \<and> (\<forall>i<length new. rpc_to ''/abort'' (new ! i)
           \<longrightarrow> (\<exists>j<i. new ! j = Wal (txid @ '' ABORT_SENT '' @ py_str (votes_json (r_votes r)))))
     \<and> (\<forall>i<length new. rpc_to ''/precommit'' (new ! i)
           \<longrightarrow> (\<exists>j<i. new ! j = Wal (txid @ '' PRECOMMIT_SENT'')))
     \<and> (\<forall>i<length new. rpc_to ''/commit'' (new ! i)
           \<longrightarrow> (\<exists>j<i. new ! j = Wal (txid @ '' DOCOMMIT_SENT'')))"
proof -
  define ps where "ps = PARTICIPANTS w"
  define bs where "bs = ballots net ''/can_commit'' txid op (calls w) ps"
  define votes where "votes = record_all [] bs"
  define V where "V = vote_rpcs ''/can_commit'' txid op ps"
  define l1 where "l1 = txid @ '' CAN_COMMIT_SENT '' @ py_str op"
  define n1 where "n1 = calls w + length ps"
  have V: "\<forall>e\<in>set ([Wal l1] @ V).
      \<not> rpc_to ''/commit'' e \<and> \<not> rpc_to ''/abort'' e \<and> \<not> rpc_to ''/precommit'' e"
    using vote_rpcs_deliv[of _ "''/can_commit''" txid op ps] deliv_not_rpc_to
      not_both_3 not_both_4 not_both_5
    by (auto simp: V_def wal_not_rpc_to)
  show ?thesis
  proof (cases "all_yes_of bs")
    case True
    define P where "P = broadcast_events (NODE_ID w) net ''/precommit'' txid n1 ps"
    define C where "C = broadcast_events (NODE_ID w) net ''/commit'' txid (n1 + rpcs P) ps"
    define pre where "pre = Wal (txid @ '' PRECOMMIT_SENT'')"
    define doc where "doc = Wal (txid @ '' DOCOMMIT_SENT'')"
    define fin where "fin = Wal (txid @ '' DONE'')"
    define new where "new = ([Wal l1] @ V) @ pre # (P @ [Sleep 2000, doc] @ C @ [fin])"
    have new2: "new = ([Wal l1] @ V @ [pre] @ P @ [Sleep 2000]) @ doc # (C @ [fin])"
      by (simp add: new_def)
    obtain w' where run: "three_pc net w txid op =
        Inr (w', \<lparr>ok = True, r_txid = txid, r_protocol = ''3PC'', r_decision = ''COMMIT'',
                  r_votes = votes\<rparr>)" and tr: "trace w' = trace w @ new"
      and wt: "wal_text w' = wal_text w @ concat (map wal_record (written new))"
      using True
      by (simp add: three_pc_eq Let_def ps_def bs_def votes_def V_def l1_def n1_def P_def C_def
          pre_def doc_def fin_def new_def wal_text_def
          written_append written_vote_rpcs written_broadcast_events)
    have P: "\<forall>e\<in>set P. \<not> rpc_to ''/commit'' e \<and> \<not> rpc_to ''/abort'' e"
      using broadcast_events_deliv[of _ "NODE_ID w" net "''/precommit''" txid n1 ps]
        deliv_not_rpc_to[of "''/precommit''"] not_both_6 not_both_8
      unfolding P_def by blast
    have C: "\<forall>e\<in>set C. \<not> rpc_to ''/abort'' e"
      using broadcast_events_deliv[of _ "NODE_ID w" net "''/commit''" txid "n1 + rpcs P" ps]
        deliv_not_rpc_to[of "''/commit''"] not_both_7
      unfolding C_def by blast
    have p: "\<forall>i<length new. rpc_to ''/precommit'' (new ! i) \<longrightarrow> (\<exists>j<i. new ! j = pre)"
      unfolding new_def using V by (intro logged_first) (auto simp: pre_def wal_not_rpc_to)
    have c: "\<forall>i<length new. rpc_to ''/commit'' (new ! i) \<longrightarrow> (\<exists>j<i. new ! j = doc)"
      unfolding new2 using V P
      by (intro logged_first) (auto simp: pre_def doc_def wal_not_rpc_to sleep_not_rpc_to)
    have "\<forall>e\<in>set new. \<not> rpc_to ''/abort'' e"
      using V P C
      by (auto simp: new_def pre_def doc_def fin_def wal_not_rpc_to sleep_not_rpc_to)
    then have ab: "\<forall>i<length new. rpc_to ''/abort'' (new ! i)
        \<longrightarrow> (\<exists>j<i. new ! j = Wal (txid @ '' ABORT_SENT '' @ py_str (votes_json votes)))"
      by (rule never_sent)
    show ?thesis using run tr wt p c ab unfolding pre_def doc_def by fastforce
  next
    case False
    define A where "A = broadcast_events (NODE_ID w) net ''/abort'' txid n1 ps"
    define a where "a = Wal (txid @ '' ABORT_SENT '' @ py_str (votes_json votes))"
    define new where "new = ([Wal l1] @ V) @ a # (A @ [Wal (txid @ '' DONE'')])"
    obtain w' where run: "three_pc net w txid op =
        Inr (w', \<lparr>ok = True, r_txid = txid, r_protocol = ''3PC'', r_decision = ''ABORT'',
                  r_votes = votes\<rparr>)" and tr: "trace w' = trace w @ new"
      and wt: "wal_text w' = wal_text w @ concat (map wal_record (written new))"
      using False
      by (simp add: three_pc_eq Let_def ps_def bs_def votes_def V_def l1_def n1_def A_def
          a_def new_def wal_text_def
          written_append written_vote_rpcs written_broadcast_events)
    have A: "\<forall>e\<in>set A. \<not> rpc_to ''/commit'' e \<and> \<not> rpc_to ''/precommit'' e"
      using broadcast_events_deliv[of _ "NODE_ID w" net "''/abort''" txid n1 ps]
        deliv_not_rpc_to[of "''/abort''"] not_both_7 not_both_8
      unfolding A_def by blast
    have ab: "\<forall>i<length new. rpc_to ''/abort'' (new ! i) \<longrightarrow> (\<exists>j<i. new ! j = a)"
      unfolding new_def using V by (intro logged_first) (auto simp: a_def wal_not_rpc_to)
    have "\<forall>e\<in>set new. \<not> rpc_to ''/commit'' e"
      using V A by (auto simp: new_def a_def wal_not_rpc_to)
    then have c: "\<forall>i<length new. rpc_to ''/commit'' (new ! i)
        \<longrightarrow> (\<exists>j<i. new ! j = Wal (txid @ '' DOCOMMIT_SENT''))"
      by (rule never_sent)
    have "\<forall>e\<in>set new. \<not> rpc_to ''/precommit'' e"
      using V A by (auto simp: new_def a_def wal_not_rpc_to)
    then have p: "\<forall>i<length new. rpc_to ''/precommit'' (new ! i)
        \<longrightarrow> (\<exists>j<i. new ! j = Wal (txid @ '' PRECOMMIT_SENT''))"
      by (rule never_sent)
    show ?thesis using run tr wt p c ab unfolding a_def by fastforce
  qed
qed

subsection \<open>The events of a whole run\<close>

lemma broadcast_events_append:
  "broadcast_events node net endpoint txid n (qs @ rs) =
     broadcast_events node net endpoint txid n qs
     @ broadcast_events node net endpoint txid
         (n + rpcs (broadcast_events node net endpoint txid n qs)) rs"
  by (induction qs arbitrary: n) (simp_all add: rpcs_append add.assoc)

lemma rpcs_gave_up_events: "rpcs (gave_up_events node endpoint txid p) = 3"
  by (simp add: gave_up_events_def)

lemma broadcast_events_gave_up:
  assumes "isl (post_json net m (py_rstrip ''/'' p @ endpoint) (JObj [(''txid'', JStr txid)]))"
    and "isl (post_json net (m + 1) (py_rstrip ''/'' p @ endpoint) (JObj [(''txid'', JStr txid)]))"
    and "isl (post_json net (m + 2) (py_rstrip ''/'' p @ endpoint) (JObj [(''txid'', JStr txid)]))"
    and "m = n + rpcs (broadcast_events node net endpoint txid n qs)"
  shows "broadcast_events node net endpoint txid n (qs @ p # rs) =
     broadcast_events node net endpoint txid n qs
     @ gave_up_events node endpoint txid p
     @ broadcast_events node net endpoint txid (m + 3) rs"
proof -
  have "deliver_events node net endpoint txid m p = gave_up_events node endpoint txid p"
    using assms(1-3) by (rule deliver_events_all_fail)
  then show ?thesis
    using assms(4) by (simp add: broadcast_events_append rpcs_gave_up_events)
qed

lemma two_pc_trace:
  "\<exists>w' r. two_pc net w txid op = Inr (w', r)
     \<and> map_option tx_state (stored w' txid) = Some ''DONE''
     \<and> trace w' = trace w @ [Wal (txid @ '' PREPARE_SENT '' @ py_str op)]
         @ vote_rpcs ''/prepare'' txid op (PARTICIPANTS w)
         @ [Wal (txid @ '' '' @ r_decision r @ ''_SENT '' @ py_str (votes_json (r_votes r)))]
         @ broadcast_events (NODE_ID w) net
             (if r_decision r = ''COMMIT'' then ''/commit'' else ''/abort'') txid
             (calls w + length (PARTICIPANTS w)) (PARTICIPANTS w)
         @ [Wal (txid @ '' DONE'')]"
  by (cases "all_yes_of (ballots net ''/prepare'' txid op (calls w) (PARTICIPANTS w))")
     (simp_all add: two_pc_eq Let_def stored_def dict_get_dict_set)

lemma three_pc_trace:
  "\<exists>w' r. three_pc net w txid op = Inr (w', r)
     \<and> map_option tx_state (stored w' txid) = Some ''DONE''
     \<and> trace w' = trace w @
         (if r_decision r = ''COMMIT''
          then [Wal (txid @ '' CAN_COMMIT_SENT '' @ py_str op)]
            @ vote_rpcs ''/can_commit'' txid op (PARTICIPANTS w)
            @ [Wal (txid @ '' PRECOMMIT_SENT'')]
            @ broadcast_events (NODE_ID w) net ''/precommit'' txid
                (calls w + length (PARTICIPANTS w)) (PARTICIPANTS w)
            @ [Sleep 2000, Wal (txid @ '' DOCOMMIT_SENT'')]
            @ broadcast_events (NODE_ID w) net ''/commit'' txid
                (calls w + length (PARTICIPANTS w)
                 + rpcs (broadcast_events (NODE_ID w) net ''/precommit'' txid
                           (calls w + length (PARTICIPANTS w)) (PARTICIPANTS w)))
                (PARTICIPANTS w)
            @ [Wal (txid @ '' DONE'')]
          else [Wal (txid @ '' CAN_COMMIT_SENT '' @ py_str op)]
            @ vote_rpcs ''/can_commit'' txid op (PARTICIPANTS w)
            @ [Wal (txid @ '' ABORT_SENT '' @ py_str (votes_json (r_votes r)))]
            @ broadcast_events (NODE_ID w) net ''/abort'' txid
                (calls w + length (PARTICIPANTS w)) (PARTICIPANTS w)
            @ [Wal (txid @ '' DONE'')])"
  by (cases "all_yes_of (ballots net ''/can_commit'' txid op (calls w) (PARTICIPANTS w))")
     (simp_all add: three_pc_eq Let_def stored_def dict_get_dict_set)

subsection \<open>What the votes map holds\<close>

lemma dict_set_keys:
  "map fst (dict_set k v d) = (if k \<in> set (map fst d) then map fst d else map fst d @ [k])"
  by (induction d) auto

lemma dict_set_key_set: "fst ` set (dict_set k v d) = insert k (fst ` set d)"
  by (induction d) auto

lemma record_all_key_set:
  "fst ` set (record_all votes bs) = fst ` set votes \<union> fst ` set bs"
  by (induction bs arbitrary: votes) (simp_all add: dict_set_key_set)

lemma record_all_keys:
  "set (map fst (record_all votes bs)) = set (map fst votes) \<union> set (map fst bs)"
  by (simp add: record_all_key_set)

lemma record_all_keys_distinct:
  "distinct (map fst votes) \<Longrightarrow> distinct (map fst (record_all votes bs))"
  by (induction bs arbitrary: votes) (auto simp: dict_set_keys)

lemma ballots_snoc:
  "ballots net endpoint txid op n (ps @ [q]) =
     ballots net endpoint txid op n ps @ [(q, ballot net endpoint txid op (n + length ps) q)]"
  by (induction ps arbitrary: n) auto

lemma last_ballot:
  "p \<in> set ps
   \<Longrightarrow> \<exists>i<length ps. ps ! i = p \<and> (\<forall>j<length ps. ps ! j = p \<longrightarrow> j \<le> i)
         \<and> dict_get (rev (ballots net endpoint txid op n ps)) p
             = Some (ballot net endpoint txid op (n + i) p)"
proof (induction ps rule: rev_induct)
  case Nil
  then show ?case by simp
next
  case (snoc q ps)
  show ?case
  proof (cases "p = q")
    case True
    have "length ps < length (ps @ [q]) \<and> (ps @ [q]) ! length ps = p
        \<and> (\<forall>j<length (ps @ [q]). (ps @ [q]) ! j = p \<longrightarrow> j \<le> length ps)
        \<and> dict_get (rev (ballots net endpoint txid op n (ps @ [q]))) p
             = Some (ballot net endpoint txid op (n + length ps) p)"
      using True by (simp add: ballots_snoc dict_get_def)
    then show ?thesis by blast
  next
    case False
    then have "p \<in> set ps" using snoc.prems by simp
    then obtain i where i: "i < length ps" "ps ! i = p"
        "\<forall>j<length ps. ps ! j = p \<longrightarrow> j \<le> i"
        "dict_get (rev (ballots net endpoint txid op n ps)) p
           = Some (ballot net endpoint txid op (n + i) p)"
      using snoc.IH by blast
    have m: "\<forall>j<length (ps @ [q]). (ps @ [q]) ! j = p \<longrightarrow> j \<le> i"
    proof (intro allI impI)
      fix j assume j: "j < length (ps @ [q])" "(ps @ [q]) ! j = p"
      have "j \<noteq> length ps" using j(2) False by auto
      then have "j < length ps" using j(1) by simp
      then show "j \<le> i" using i(3) j(2) by (simp add: nth_append)
    qed
    have "i < length (ps @ [q]) \<and> (ps @ [q]) ! i = p
        \<and> dict_get (rev (ballots net endpoint txid op n (ps @ [q]))) p
             = Some (ballot net endpoint txid op (n + i) p)"
      using i False by (simp add: ballots_snoc dict_get_def nth_append)
    then show ?thesis using m by blast
  qed
qed

lemma ballots_key_set: "fst ` set (ballots net endpoint txid op n ps) = set ps"
  using keys_ballots[of net endpoint txid op n ps] by (metis set_map)

lemma recorded_last_ballot:
  "p \<in> set ps
   \<Longrightarrow> \<exists>i<length ps. ps ! i = p \<and> (\<forall>j<length ps. ps ! j = p \<longrightarrow> j \<le> i)
         \<and> dict_get (record_all [] (ballots net endpoint txid op n ps)) p
             = Some (ballot net endpoint txid op (n + i) p)"
  using last_ballot[of p ps net endpoint txid op n] by (auto simp: dict_get_record_all)

lemma all_yes_of_ballots:
  "all_yes_of (ballots net endpoint txid op n ps)
   \<longleftrightarrow> (\<forall>i<length ps. ballot net endpoint txid op (n + i) (ps ! i) = ''YES'')"
proof (induction ps arbitrary: n)
  case Nil
  then show ?case by (simp add: all_yes_of_def)
next
  case (Cons p ps)
  have "all_yes_of (ballots net endpoint txid op n (p # ps))
      \<longleftrightarrow> ballot net endpoint txid op n p = ''YES''
          \<and> all_yes_of (ballots net endpoint txid op (Suc n) ps)"
    by (simp add: all_yes_of_def)
  then show ?case
    by (auto simp: Cons.IH less_Suc_eq_0_disj)
qed

lemma ballot_not_object:
  "post_json net n (py_rstrip ''/'' p @ endpoint) (vote_payload txid op) = Inr (status, resp)
   \<Longrightarrow> \<forall>kvs. resp \<noteq> JObj kvs
   \<Longrightarrow> ballot net endpoint txid op n p = ''NO_TIMEOUT''"
  by (cases resp) (simp_all add: ballot_def py_get_def)

lemma py_upper_NO: "py_upper ''NO'' = ''NO''"
  by code_simp

lemma ballot_object:
  "post_json net n (py_rstrip ''/'' p @ endpoint) (vote_payload txid op) = Inr (status, JObj kvs)
   \<Longrightarrow> ballot net endpoint txid op n p
       = (case dict_get kvs ''vote'' of None \<Rightarrow> ''NO'' | Some x \<Rightarrow> py_upper (py_str x))"
  by (simp add: ballot_def py_get_def py_str_def py_upper_NO split: option.split)

subsection \<open>The state that a replay restores\<close>

lemma replay_lines_keeps:
  "stored w k = Some t \<Longrightarrow> stored (replay_lines ls w) k = Some t"
  unfolding stored_def using replay_lines_extends[of ls w] dict_get_append_Some by fastforce

lemma line_state_of_key: "line_key l = Some k \<Longrightarrow> line_state l = Some (py_split 2 (py_strip l) ! 1)"
  by (auto simp: line_key_def line_state_def Let_def split: if_splits)

lemma replay_line_first:
  "stored w k = None \<Longrightarrow> line_key l = Some k
   \<Longrightarrow> map_option tx_state (stored (replay_line l w) k) = line_state l"
  by (simp add: replay_line_cases stored_def setdefault_def dict_get_append dict_get_single
      line_state_of_key)

lemma replay_line_other:
  "stored w k = None \<Longrightarrow> line_key l \<noteq> Some k \<Longrightarrow> stored (replay_line l w) k = None"
  by (auto simp: replay_line_cases stored_def setdefault_def dict_get_append dict_get_single
      split: option.splits)

lemma replay_lines_first:
  "stored w k = None
   \<Longrightarrow> map_option tx_state (stored (replay_lines ls w) k)
       = (case find (\<lambda>l. line_key l = Some k) ls of None \<Rightarrow> None | Some l \<Rightarrow> line_state l)"
proof (induction ls arbitrary: w)
  case Nil
  then show ?case by simp
next
  case (Cons l ls)
  show ?case
  proof (cases "line_key l = Some k")
    case True
    have s: "map_option tx_state (stored (replay_line l w) k) = line_state l"
      using Cons.prems True by (rule replay_line_first)
    then obtain t where t: "stored (replay_line l w) k = Some t"
      using line_state_of_key[OF True] by (cases "stored (replay_line l w) k") auto
    have "stored (replay_lines ls (replay_line l w)) k = Some t"
      using t by (rule replay_lines_keeps)
    then show ?thesis using True s t by simp
  next
    case False
    have "stored (replay_line l w) k = None"
      using Cons.prems False by (rule replay_line_other)
    then show ?thesis using False Cons.IH by simp
  qed
qed

section \<open>The claims\<close>

text \<open>
  C1, as stated, fails when a participant is listed twice and answers NO, then YES: the
  second vote replaces the first in the votes map, so every recorded vote is YES, while
  \<open>all_yes\<close> has seen the NO and the decision is ABORT.
\<close>

theorem two_pc_duplicate_participant_counterexample:
  "PARTICIPANTS w_twice = [''http://a'', ''http://a'']
   \<and> map_option r_votes (returned (two_pc net_no_then_yes w_twice ''t1'' (JObj [])))
       = Some [(''http://a'', ''YES'')]
   \<and> map_option r_decision (returned (two_pc net_no_then_yes w_twice ''t1'' (JObj [])))
       = Some ''ABORT''"
  by code_simp

text \<open>
  C1, as amended. Every run of \<open>two_pc\<close> returns, and its decision is COMMIT or ABORT.
  It is COMMIT exactly when every request of the voting phase gave the vote YES, each
  request counted on its own; the decision and the votes map are stored in the table as
  they are returned. When the decision is COMMIT, every participant's recorded vote is
  YES. When no participant is listed twice, the votes map holds exactly the votes of the
  requests, and the decision is COMMIT exactly when every participant's recorded vote is
  YES.
\<close>

theorem two_pc_decision_rule:
  "\<exists>w' r. two_pc net w txid op = Inr (w', r)
     \<and> (r_decision r = ''COMMIT'' \<or> r_decision r = ''ABORT'')
     \<and> (r_decision r = ''COMMIT''
          \<longleftrightarrow> all_yes_of (ballots net ''/prepare'' txid op (calls w) (PARTICIPANTS w)))
     \<and> map_option tx_decision (stored w' txid) = Some (Some (r_decision r))
     \<and> map_option tx_votes (stored w' txid) = Some (r_votes r)
     \<and> (r_decision r = ''COMMIT''
          \<longrightarrow> (\<forall>p\<in>set (PARTICIPANTS w). dict_get (r_votes r) p = Some ''YES''))
     \<and> (distinct (PARTICIPANTS w)
          \<longrightarrow> r_votes r = ballots net ''/prepare'' txid op (calls w) (PARTICIPANTS w)
            \<and> (r_decision r = ''COMMIT''
                 \<longleftrightarrow> (\<forall>p\<in>set (PARTICIPANTS w). dict_get (r_votes r) p = Some ''YES'')))"
proof -
  define bs where "bs = ballots net ''/prepare'' txid op (calls w) (PARTICIPANTS w)"
  define d where "d = (if all_yes_of bs then ''COMMIT'' else ''ABORT'')"
  have keys: "map fst bs = PARTICIPANTS w" by (simp add: bs_def keys_ballots)
  obtain w' where run: "two_pc net w txid op =
      Inr (w', \<lparr>ok = True, r_txid = txid, r_protocol = ''2PC'', r_decision = d,
                r_votes = record_all [] bs\<rparr>)"
    and st: "map_option tx_decision (stored w' txid) = Some (Some d)"
            "map_option tx_votes (stored w' txid) = Some (record_all [] bs)"
    by (simp add: two_pc_eq Let_def bs_def d_def stored_def dict_get_dict_set)
  have d1: "d = ''COMMIT'' \<or> d = ''ABORT''" by (simp add: d_def)
  have d2: "d = ''COMMIT'' \<longleftrightarrow> all_yes_of bs" by (simp add: d_def)
  have rec: "\<forall>p\<in>set (PARTICIPANTS w). dict_get (record_all [] bs) p = Some ''YES''"
    if "d = ''COMMIT''"
    using that d2 all_yes_recorded[of bs _ "[]"] keys by auto
  have dist: "record_all [] bs = bs
      \<and> (d = ''COMMIT'' \<longleftrightarrow> (\<forall>p\<in>set (PARTICIPANTS w). dict_get (record_all [] bs) p = Some ''YES''))"
    if di: "distinct (PARTICIPANTS w)"
  proof -
    have eq: "record_all [] bs = bs"
      using record_all_distinct[of bs "[]"] di keys by simp
    have "all_yes_of bs" if "\<forall>p\<in>set (PARTICIPANTS w). dict_get (record_all [] bs) p = Some ''YES''"
      using that distinct_all_yes[of bs] di keys eq by simp
    then show ?thesis using eq rec d2 by blast
  qed
  show ?thesis
    using run st d1 d2 rec dist unfolding bs_def[symmetric] by auto
qed

theorem two_pc_decision_rule_witness:
  "distinct (PARTICIPANTS w_boot)
   \<and> (\<exists>w' r. two_pc net_yes w_boot ''t1'' (JObj []) = Inr (w', r)
        \<and> r_decision r = ''COMMIT''
        \<and> r_votes r = [(''http://p1'', ''YES''), (''http://p2'', ''YES''), (''http://p3'', ''YES'')]
        \<and> (\<forall>p\<in>set (PARTICIPANTS w_boot). dict_get (r_votes r) p = Some ''YES''))"
proof -
  have d: "distinct (PARTICIPANTS w_boot)" by code_simp
  have b: "ballots net_yes ''/prepare'' ''t1'' (JObj []) (calls w_boot) (PARTICIPANTS w_boot)
           = [(''http://p1'', ''YES''), (''http://p2'', ''YES''), (''http://p3'', ''YES'')]"
    by code_simp
  have a: "all_yes_of [(''http://p1'', ''YES''), (''http://p2'', ''YES''), (''http://p3'', ''YES'')]"
    by (simp add: all_yes_of_def)
  show ?thesis
    using two_pc_decision_rule[of net_yes w_boot "''t1''" "JObj []"] d a unfolding b by metis
qed




text \<open>
  C3. After \<open>replay_wal\<close> on a log with well-formed lines for a txid that is not in
  the table, the table should hold that txid with the state of the last line for it.
  The code keeps the state of the first line: \<open>setdefault\<close> adds the entry at the
  first line and leaves it alone at every later one. Here the log is the one that a
  committed run of \<open>two_pc\<close> wrote, its last line says \<open>DONE\<close>, and the replayed
  state is \<open>PREPARE_SENT\<close>.
\<close>

theorem replay_wal_keeps_first_state:
  "map line_key (py_lines [] (wal_text w_crashed)) = [Some ''t1'', Some ''t1'', Some ''t1'']
   \<and> map line_state (py_lines [] (wal_text w_crashed))
       = [Some ''PREPARE_SENT'', Some ''COMMIT_SENT'', Some ''DONE'']
   \<and> stored w_crashed ''t1'' = None
   \<and> map_option tx_state (stored (replay_wal w_crashed) ''t1'') = Some ''PREPARE_SENT''"
  by code_simp

text \<open>
  C4. \<open>wal_append\<close> puts the record at the end of the WAL file at the moment of its
  event. In every run of \<open>two_pc\<close> and of \<open>three_pc\<close> the file grows by exactly
  the records of the run's \<open>wal_append\<close> events, in their order, and among the events
  of the run every request to \<open>/commit\<close>, \<open>/abort\<close> or \<open>/precommit\<close> comes
  after the \<open>wal_append\<close> of the milestone it delivers: COMMIT_SENT or ABORT_SENT
  (with the votes) in 2PC; ABORT_SENT, PRECOMMIT_SENT or DOCOMMIT_SENT in 3PC.
\<close>

theorem wal_before_verdict:
  "(WAL (wal_append l w) = Some (wal_text w @ wal_record l)
     \<and> trace (wal_append l w) = trace w @ [Wal l])
   \<and> (\<exists>w' r new. two_pc net w txid op = Inr (w', r) \<and> trace w' = trace w @ new
     \<and> wal_text w' = wal_text w @ concat (map wal_record (written new))
     \<and> (\<forall>i<length new. rpc_to ''/commit'' (new ! i)
           \<longrightarrow> (\<exists>j<i. new ! j = Wal (txid @ '' COMMIT_SENT '' @ py_str (votes_json (r_votes r)))))
     \<and> (\<forall>i<length new. rpc_to ''/abort'' (new ! i)
           \<longrightarrow> (\<exists>j<i. new ! j = Wal (txid @ '' ABORT_SENT '' @ py_str (votes_json (r_votes r))))))
   \<and> (\<exists>w' r new. three_pc net w txid op = Inr (w', r) \<and> trace w' = trace w @ new
     \<and> wal_text w' = wal_text w @ concat (map wal_record (written new))
     \<and> (\<forall>i<length new. rpc_to ''/abort'' (new ! i)
           \<longrightarrow> (\<exists>j<i. new ! j = Wal (txid @ '' ABORT_SENT '' @ py_str (votes_json (r_votes r)))))
     \<and> (\<forall>i<length new. rpc_to ''/precommit'' (new ! i)
           \<longrightarrow> (\<exists>j<i. new ! j = Wal (txid @ '' PRECOMMIT_SENT'')))
     \<and> (\<forall>i<length new. rpc_to ''/commit'' (new ! i)
           \<longrightarrow> (\<exists>j<i. new ! j = Wal (txid @ '' DOCOMMIT_SENT''))))"
proof -
  have a: "WAL (wal_append l w) = Some (wal_text w @ wal_record l)
     \<and> trace (wal_append l w) = trace w @ [Wal l]"
    by (simp add: wal_append_def wal_record_def)
  show ?thesis
    by (rule conjI[OF a conjI[OF two_pc_wal_first[of net w txid op]
          three_pc_wal_first[of net w txid op]]])
qed

theorem wal_before_verdict_witness:
  "(\<exists>w' r new. two_pc net_yes w_boot ''t1'' (JObj []) = Inr (w', r) \<and> trace w' = new
      \<and> wal_text w' = concat (map wal_record (written new)) \<and> length (written new) = 3
      \<and> 5 < length new \<and> rpc_to ''/commit'' (new ! 5)
      \<and> (\<exists>j<5. new ! j = Wal (''t1 COMMIT_SENT '' @ py_str (votes_json (r_votes r)))))
   \<and> (\<exists>w' r new. three_pc net_yes w_boot ''t1'' (JObj []) = Inr (w', r) \<and> trace w' = new
      \<and> wal_text w' = concat (map wal_record (written new)) \<and> length (written new) = 4
      \<and> 10 < length new
      \<and> rpc_to ''/precommit'' (new ! 5) \<and> (\<exists>j<5. new ! j = Wal ''t1 PRECOMMIT_SENT'')
      \<and> rpc_to ''/commit'' (new ! 10) \<and> (\<exists>j<10. new ! j = Wal ''t1 DOCOMMIT_SENT''))"
proof -
  note t = wal_before_verdict[where net = net_yes and w = w_boot and txid = "''t1''"
      and op = "JObj []" and l = "''t1 DONE''"]
  have e: "trace w_boot = []" "wal_text w_boot = []" by (simp_all add: w_boot_def wal_text_def)
  have two: "length (trace (after (two_pc net_yes w_boot ''t1'' (JObj [])) w_boot)) = 9"
      "rpc_to ''/commit'' (trace (after (two_pc net_yes w_boot ''t1'' (JObj [])) w_boot) ! 5)"
      "length (written (trace (after (two_pc net_yes w_boot ''t1'' (JObj [])) w_boot))) = 3"
    by code_simp+
  have three: "length (trace (after (three_pc net_yes w_boot ''t1'' (JObj [])) w_boot)) = 14"
      "rpc_to ''/precommit'' (trace (after (three_pc net_yes w_boot ''t1'' (JObj [])) w_boot) ! 5)"
      "rpc_to ''/commit'' (trace (after (three_pc net_yes w_boot ''t1'' (JObj [])) w_boot) ! 10)"
      "length (written (trace (after (three_pc net_yes w_boot ''t1'' (JObj [])) w_boot))) = 4"
    by code_simp+
  from t obtain w2 r2 new2 where r2: "two_pc net_yes w_boot ''t1'' (JObj []) = Inr (w2, r2)"
    and n2: "trace w2 = trace w_boot @ new2"
    and f2: "wal_text w2 = wal_text w_boot @ concat (map wal_record (written new2))"
    and c2: "\<forall>i<length new2. rpc_to ''/commit'' (new2 ! i)
       \<longrightarrow> (\<exists>j<i. new2 ! j = Wal (''t1'' @ '' COMMIT_SENT '' @ py_str (votes_json (r_votes r2))))"
    by blast
  have a2: "after (two_pc net_yes w_boot ''t1'' (JObj [])) w_boot = w2"
    by (simp add: after_def r2)
  have A: "\<exists>w' r new. two_pc net_yes w_boot ''t1'' (JObj []) = Inr (w', r) \<and> trace w' = new
      \<and> wal_text w' = concat (map wal_record (written new)) \<and> length (written new) = 3
      \<and> 5 < length new \<and> rpc_to ''/commit'' (new ! 5)
      \<and> (\<exists>j<5. new ! j = Wal (''t1 COMMIT_SENT '' @ py_str (votes_json (r_votes r))))"
    using r2 n2 f2 c2 two unfolding a2 e by auto
  from t obtain w3 r3 new3 where r3: "three_pc net_yes w_boot ''t1'' (JObj []) = Inr (w3, r3)"
    and n3: "trace w3 = trace w_boot @ new3"
    and f3: "wal_text w3 = wal_text w_boot @ concat (map wal_record (written new3))"
    and p3: "\<forall>i<length new3. rpc_to ''/precommit'' (new3 ! i)
       \<longrightarrow> (\<exists>j<i. new3 ! j = Wal (''t1'' @ '' PRECOMMIT_SENT''))"
    and c3: "\<forall>i<length new3. rpc_to ''/commit'' (new3 ! i)
       \<longrightarrow> (\<exists>j<i. new3 ! j = Wal (''t1'' @ '' DOCOMMIT_SENT''))"
    by blast
  have a3: "after (three_pc net_yes w_boot ''t1'' (JObj [])) w_boot = w3"
    by (simp add: after_def r3)
  have B: "\<exists>w' r new. three_pc net_yes w_boot ''t1'' (JObj []) = Inr (w', r) \<and> trace w' = new
      \<and> wal_text w' = concat (map wal_record (written new)) \<and> length (written new) = 4
      \<and> 10 < length new
      \<and> rpc_to ''/precommit'' (new ! 5) \<and> (\<exists>j<5. new ! j = Wal ''t1 PRECOMMIT_SENT'')
      \<and> rpc_to ''/commit'' (new ! 10) \<and> (\<exists>j<10. new ! j = Wal ''t1 DOCOMMIT_SENT'')"
    using r3 n3 f3 p3 c3 three unfolding a3 e by auto
  show ?thesis using A B by (intro conjI)
qed

text \<open>
  C5. In every run of \<open>three_pc\<close> the lines given to \<open>wal_append\<close> are, in order,
  those of CAN_COMMIT_SENT, PRECOMMIT_SENT, DOCOMMIT_SENT and DONE when every vote of the
  voting phase is YES (the decision is then COMMIT), and those of CAN_COMMIT_SENT,
  ABORT_SENT and DONE, with no PRECOMMIT_SENT, when some vote is not YES (the decision is
  then ABORT); the WAL file grows by exactly these lines.
\<close>

theorem three_pc_milestones:
  "\<exists>w' r new. three_pc net w txid op = Inr (w', r) \<and> trace w' = trace w @ new
     \<and> written new =
         (if all_yes_of (ballots net ''/can_commit'' txid op (calls w) (PARTICIPANTS w))
          then [txid @ '' CAN_COMMIT_SENT '' @ py_str op, txid @ '' PRECOMMIT_SENT'',
                txid @ '' DOCOMMIT_SENT'', txid @ '' DONE'']
          else [txid @ '' CAN_COMMIT_SENT '' @ py_str op,
                txid @ '' ABORT_SENT '' @ py_str (votes_json (r_votes r)), txid @ '' DONE''])
     \<and> wal_text w' = wal_text w @ concat (map wal_record (written new))
     \<and> (r_decision r = ''COMMIT''
          \<longleftrightarrow> all_yes_of (ballots net ''/can_commit'' txid op (calls w) (PARTICIPANTS w)))
     \<and> (r_decision r = ''ABORT''
          \<longleftrightarrow> \<not> all_yes_of (ballots net ''/can_commit'' txid op (calls w) (PARTICIPANTS w)))"
proof (cases "all_yes_of (ballots net ''/can_commit'' txid op (calls w) (PARTICIPANTS w))")
  case True
  obtain w' r new where run: "three_pc net w txid op = Inr (w', r)"
    and tr: "trace w' = trace w @ new"
    and wr: "written new = [txid @ '' CAN_COMMIT_SENT '' @ py_str op, txid @ '' PRECOMMIT_SENT'',
                txid @ '' DOCOMMIT_SENT'', txid @ '' DONE'']"
    and wt: "wal_text w' = wal_text w @ concat (map wal_record
               [txid @ '' CAN_COMMIT_SENT '' @ py_str op, txid @ '' PRECOMMIT_SENT'',
                txid @ '' DOCOMMIT_SENT'', txid @ '' DONE''])"
    and d: "r_decision r = ''COMMIT''"
    using True
    by (simp add: three_pc_eq Let_def written_append written_vote_rpcs written_broadcast_events
        wal_text_def)
  show ?thesis using True run tr wr wt d by auto
next
  case False
  obtain w' r new where run: "three_pc net w txid op = Inr (w', r)"
    and tr: "trace w' = trace w @ new"
    and wr: "written new = [txid @ '' CAN_COMMIT_SENT '' @ py_str op,
                txid @ '' ABORT_SENT '' @ py_str (votes_json (r_votes r)), txid @ '' DONE'']"
    and wt: "wal_text w' = wal_text w @ concat (map wal_record
               [txid @ '' CAN_COMMIT_SENT '' @ py_str op,
                txid @ '' ABORT_SENT '' @ py_str (votes_json (r_votes r)), txid @ '' DONE''])"
    and d: "r_decision r = ''ABORT''"
    using False
    by (simp add: three_pc_eq Let_def written_append written_vote_rpcs written_broadcast_events
        wal_text_def)
  show ?thesis using False run tr wr wt d by auto
qed

theorem three_pc_milestones_witness:
  "(\<exists>w' r new. three_pc net_yes w_boot ''t1'' (JObj []) = Inr (w', r) \<and> trace w' = new
      \<and> r_decision r = ''COMMIT''
      \<and> written new = [''t1 CAN_COMMIT_SENT {}'', ''t1 PRECOMMIT_SENT'', ''t1 DOCOMMIT_SENT'',
                        ''t1 DONE''])
   \<and> (\<exists>w' r new. three_pc net_down w_boot ''t1'' (JObj []) = Inr (w', r) \<and> trace w' = new
      \<and> r_decision r = ''ABORT''
      \<and> written new = [''t1 CAN_COMMIT_SENT {}'',
                        ''t1 ABORT_SENT '' @ py_str (votes_json (r_votes r)), ''t1 DONE''])"
proof -
  have e: "trace w_boot = []" by (simp add: w_boot_def)
  have s: "py_str (JObj []) = ''{}''" by code_simp
  have y: "all_yes_of (ballots net_yes ''/can_commit'' ''t1'' (JObj []) (calls w_boot)
             (PARTICIPANTS w_boot))"
    by code_simp
  have n: "\<not> all_yes_of (ballots net_down ''/can_commit'' ''t1'' (JObj []) (calls w_boot)
             (PARTICIPANTS w_boot))"
    by code_simp
  have A: "\<exists>w' r new. three_pc net_yes w_boot ''t1'' (JObj []) = Inr (w', r) \<and> trace w' = new
      \<and> r_decision r = ''COMMIT''
      \<and> written new = [''t1 CAN_COMMIT_SENT {}'', ''t1 PRECOMMIT_SENT'', ''t1 DOCOMMIT_SENT'',
                        ''t1 DONE'']"
    using three_pc_milestones[of net_yes w_boot "''t1''" "JObj []"] y by (auto simp: e s)
  have B: "\<exists>w' r new. three_pc net_down w_boot ''t1'' (JObj []) = Inr (w', r) \<and> trace w' = new
      \<and> r_decision r = ''ABORT''
      \<and> written new = [''t1 CAN_COMMIT_SENT {}'',
                        ''t1 ABORT_SENT '' @ py_str (votes_json (r_votes r)), ''t1 DONE'']"
    using three_pc_milestones[of net_down w_boot "''t1''" "JObj []"] n by (auto simp: e s)
  show ?thesis using A B by (intro conjI)
qed

text \<open>
  C6. \<open>replay_wal\<close> never overwrites an entry that the table already has: the table
  after the replay is the table before it, followed by new entries, so every txid that
  had an entry still has the same one. A second replay of the same log changes nothing,
  and a table with one entry for a txid has one entry for a txid after the replay.
\<close>

theorem replay_wal_idempotent:
  "(\<exists>new. TX (replay_wal w) = TX w @ new)
   \<and> (\<forall>k t. stored w k = Some t \<longrightarrow> stored (replay_wal w) k = Some t)
   \<and> replay_wal (replay_wal w) = replay_wal w
   \<and> (distinct (map fst (TX w)) \<longrightarrow> distinct (map fst (TX (replay_wal w))))"
proof -
  have twice: "replay_wal (replay_wal w) = replay_wal w"
    by (cases "WAL w") (simp_all add: replay_wal_def replay_lines_WAL replay_lines_twice)
  have dist: "distinct (map fst (TX w)) \<longrightarrow> distinct (map fst (TX (replay_wal w)))"
    by (cases "WAL w") (simp_all add: replay_wal_def replay_lines_distinct)
  show ?thesis
    using replay_wal_extends[of w] replay_wal_keeps[of w] twice dist
    unfolding stored_def by blast
qed

theorem replay_wal_idempotent_witness:
  "map fst (TX w_live) = [''t1'']
   \<and> map_option tx_state (stored w_live ''t1'') = Some ''DONE''
   \<and> map fst (TX (replay_wal w_live)) = [''t1'', ''t0'']
   \<and> stored (replay_wal w_live) ''t1'' = stored w_live ''t1''
   \<and> replay_wal (replay_wal w_live) = replay_wal w_live
   \<and> distinct (map fst (TX (replay_wal w_live)))"
proof -
  have keys: "map fst (TX w_live) = [''t1'']" by code_simp
  have st: "map_option tx_state (stored w_live ''t1'') = Some ''DONE''" by code_simp
  have keys': "map fst (TX (replay_wal w_live)) = [''t1'', ''t0'']" by code_simp
  have d: "distinct (map fst (TX w_live))" using keys by simp
  obtain t where t: "stored w_live ''t1'' = Some t" using st by (cases "stored w_live ''t1''") auto
  show ?thesis
    using replay_wal_idempotent[of w_live] keys st keys' d t by simp
qed

text \<open>
  C7. A delivery whose three attempts all fail consists of exactly three requests, each
  followed by a sleep of 0.5 s, and then the message that the delivery failed; it raises
  nothing. The events of every run of \<open>two_pc\<close> and of \<open>three_pc\<close> are its
  milestones, its vote requests and, after each decision milestone, the deliveries to
  the participants in list order (\<open>/commit\<close> or \<open>/abort\<close> in 2PC;
  \<open>/abort\<close>, or \<open>/precommit\<close> and then \<open>/commit\<close>, in 3PC); the run ends
  with the transaction in state DONE and returns. In such a sequence of deliveries, a
  participant whose three attempts fail contributes exactly the seven events above,
  between the deliveries to the participants before it and those to the participants
  after it, which start three requests later. When no request at all succeeds, a run of
  \<open>two_pc\<close> has these seven events for every participant in turn.
\<close>

theorem delivery_retries:
  "(isl (post_json net (calls w) (py_rstrip ''/'' p @ endpoint) (JObj [(''txid'', JStr txid)]))
    \<and> isl (post_json net (calls w + 1) (py_rstrip ''/'' p @ endpoint) (JObj [(''txid'', JStr txid)]))
    \<and> isl (post_json net (calls w + 2) (py_rstrip ''/'' p @ endpoint) (JObj [(''txid'', JStr txid)]))
    \<longrightarrow> deliver net endpoint txid p w =
          w\<lparr>calls := calls w + 3,
            trace := trace w @ gave_up_events (NODE_ID w) endpoint txid p\<rparr>)
   \<and> gave_up_events node endpoint txid p =
       [Rpc (py_rstrip ''/'' p @ endpoint) (JObj [(''txid'', JStr txid)]), Sleep 500,
        Rpc (py_rstrip ''/'' p @ endpoint) (JObj [(''txid'', JStr txid)]), Sleep 500,
        Rpc (py_rstrip ''/'' p @ endpoint) (JObj [(''txid'', JStr txid)]), Sleep 500,
        Print (''['' @ node @ ''] Failed to send '' @ endpoint @ '' to '' @ p
               @ '' after 3 retries'')]
   \<and> (isl (post_json net m (py_rstrip ''/'' p @ endpoint) (JObj [(''txid'', JStr txid)]))
    \<and> isl (post_json net (m + 1) (py_rstrip ''/'' p @ endpoint) (JObj [(''txid'', JStr txid)]))
    \<and> isl (post_json net (m + 2) (py_rstrip ''/'' p @ endpoint) (JObj [(''txid'', JStr txid)]))
    \<and> m = n + rpcs (broadcast_events node net endpoint txid n qs)
    \<longrightarrow> broadcast_events node net endpoint txid n (qs @ p # rs) =
          broadcast_events node net endpoint txid n qs
          @ gave_up_events node endpoint txid p
          @ broadcast_events node net endpoint txid (m + 3) rs)
   \<and> (\<exists>w' r. two_pc net w txid op = Inr (w', r)
        \<and> map_option tx_state (stored w' txid) = Some ''DONE''
        \<and> trace w' = trace w @ [Wal (txid @ '' PREPARE_SENT '' @ py_str op)]
            @ vote_rpcs ''/prepare'' txid op (PARTICIPANTS w)
            @ [Wal (txid @ '' '' @ r_decision r @ ''_SENT '' @ py_str (votes_json (r_votes r)))]
            @ broadcast_events (NODE_ID w) net
                (if r_decision r = ''COMMIT'' then ''/commit'' else ''/abort'') txid
                (calls w + length (PARTICIPANTS w)) (PARTICIPANTS w)
            @ [Wal (txid @ '' DONE'')])
   \<and> (\<exists>w' r. three_pc net w txid op = Inr (w', r)
        \<and> map_option tx_state (stored w' txid) = Some ''DONE''
        \<and> trace w' = trace w @
            (if r_decision r = ''COMMIT''
             then [Wal (txid @ '' CAN_COMMIT_SENT '' @ py_str op)]
               @ vote_rpcs ''/can_commit'' txid op (PARTICIPANTS w)
               @ [Wal (txid @ '' PRECOMMIT_SENT'')]
               @ broadcast_events (NODE_ID w) net ''/precommit'' txid
                   (calls w + length (PARTICIPANTS w)) (PARTICIPANTS w)
               @ [Sleep 2000, Wal (txid @ '' DOCOMMIT_SENT'')]
               @ broadcast_events (NODE_ID w) net ''/commit'' txid
                   (calls w + length (PARTICIPANTS w)
                    + rpcs (broadcast_events (NODE_ID w) net ''/precommit'' txid
                              (calls w + length (PARTICIPANTS w)) (PARTICIPANTS w)))
                   (PARTICIPANTS w)
               @ [Wal (txid @ '' DONE'')]
             else [Wal (txid @ '' CAN_COMMIT_SENT '' @ py_str op)]
               @ vote_rpcs ''/can_commit'' txid op (PARTICIPANTS w)
               @ [Wal (txid @ '' ABORT_SENT '' @ py_str (votes_json (r_votes r)))]
               @ broadcast_events (NODE_ID w) net ''/abort'' txid
                   (calls w + length (PARTICIPANTS w)) (PARTICIPANTS w)
               @ [Wal (txid @ '' DONE'')]))
   \<and> ((\<forall>n url pl. isl (post_json net n url pl))
        \<longrightarrow> (\<exists>w' r. two_pc net w txid op = Inr (w', r)
              \<and> trace w' = trace w @ [Wal (txid @ '' PREPARE_SENT '' @ py_str op)]
                  @ vote_rpcs ''/prepare'' txid op (PARTICIPANTS w)
                  @ [Wal (txid @ '' '' @ r_decision r @ ''_SENT ''
                          @ py_str (votes_json (r_votes r)))]
                  @ concat (map (gave_up_events (NODE_ID w) ''/abort'' txid) (PARTICIPANTS w))
                  @ [Wal (txid @ '' DONE'')]))"
proof -
  have a: "isl (post_json net (calls w) (py_rstrip ''/'' p @ endpoint) (JObj [(''txid'', JStr txid)]))
    \<and> isl (post_json net (calls w + 1) (py_rstrip ''/'' p @ endpoint) (JObj [(''txid'', JStr txid)]))
    \<and> isl (post_json net (calls w + 2) (py_rstrip ''/'' p @ endpoint) (JObj [(''txid'', JStr txid)]))
    \<longrightarrow> deliver net endpoint txid p w =
          w\<lparr>calls := calls w + 3,
            trace := trace w @ gave_up_events (NODE_ID w) endpoint txid p\<rparr>"
    by (simp add: deliver_eq deliver_events_all_fail) (simp add: gave_up_events_def)
  have g: "gave_up_events node endpoint txid p =
       [Rpc (py_rstrip ''/'' p @ endpoint) (JObj [(''txid'', JStr txid)]), Sleep 500,
        Rpc (py_rstrip ''/'' p @ endpoint) (JObj [(''txid'', JStr txid)]), Sleep 500,
        Rpc (py_rstrip ''/'' p @ endpoint) (JObj [(''txid'', JStr txid)]), Sleep 500,
        Print (''['' @ node @ ''] Failed to send '' @ endpoint @ '' to '' @ p
               @ '' after 3 retries'')]"
    by (simp add: gave_up_events_def)
  have b: "isl (post_json net m (py_rstrip ''/'' p @ endpoint) (JObj [(''txid'', JStr txid)]))
    \<and> isl (post_json net (m + 1) (py_rstrip ''/'' p @ endpoint) (JObj [(''txid'', JStr txid)]))
    \<and> isl (post_json net (m + 2) (py_rstrip ''/'' p @ endpoint) (JObj [(''txid'', JStr txid)]))
    \<and> m = n + rpcs (broadcast_events node net endpoint txid n qs)
    \<longrightarrow> broadcast_events node net endpoint txid n (qs @ p # rs) =
          broadcast_events node net endpoint txid n qs
          @ gave_up_events node endpoint txid p
          @ broadcast_events node net endpoint txid (m + 3) rs"
    using broadcast_events_gave_up[of net m p endpoint txid n node qs rs] by blast
  have f: "((\<forall>n url pl. isl (post_json net n url pl))
        \<longrightarrow> (\<exists>w' r. two_pc net w txid op = Inr (w', r)
              \<and> trace w' = trace w @ [Wal (txid @ '' PREPARE_SENT '' @ py_str op)]
                  @ vote_rpcs ''/prepare'' txid op (PARTICIPANTS w)
                  @ [Wal (txid @ '' '' @ r_decision r @ ''_SENT ''
                          @ py_str (votes_json (r_votes r)))]
                  @ concat (map (gave_up_events (NODE_ID w) ''/abort'' txid) (PARTICIPANTS w))
                  @ [Wal (txid @ '' DONE'')]))"
    using two_pc_all_fail[of net w txid op] by blast
  show ?thesis
    by (rule conjI[OF a conjI[OF g conjI[OF b conjI[OF two_pc_trace[of net w txid op]
          conjI[OF three_pc_trace[of net w txid op] f]]]]])
qed

theorem delivery_retries_witness:
  "isl (post_json net_down 0 ''http://p2/abort'' (JObj [(''txid'', JStr ''t1'')]))
   \<and> isl (post_json net_down 1 ''http://p2/abort'' (JObj [(''txid'', JStr ''t1'')]))
   \<and> isl (post_json net_down 2 ''http://p2/abort'' (JObj [(''txid'', JStr ''t1'')]))
   \<and> deliver net_down ''/abort'' ''t1'' ''http://p2/'' w_boot =
       w_boot\<lparr>calls := 3,
         trace := [Rpc ''http://p2/abort'' (JObj [(''txid'', JStr ''t1'')]), Sleep 500,
                   Rpc ''http://p2/abort'' (JObj [(''txid'', JStr ''t1'')]), Sleep 500,
                   Rpc ''http://p2/abort'' (JObj [(''txid'', JStr ''t1'')]), Sleep 500,
                   Print ''[COORD] Failed to send /abort to http://p2/ after 3 retries'']\<rparr>
   \<and> (\<forall>n url pl. isl (post_json net_down n url pl))
   \<and> (\<exists>w' r. two_pc net_down w_boot ''t1'' (JObj []) = Inr (w', r)
        \<and> trace w' = [Wal ''t1 PREPARE_SENT {}'']
            @ vote_rpcs ''/prepare'' ''t1'' (JObj []) [''http://p1'', ''http://p2'', ''http://p3'']
            @ [Wal (''t1 '' @ r_decision r @ ''_SENT '' @ py_str (votes_json (r_votes r)))]
            @ concat (map (gave_up_events ''COORD'' ''/abort'' ''t1'') [''http://p1'', ''http://p2'', ''http://p3''])
            @ [Wal ''t1 DONE''])
   \<and> isl (post_json net_p2_deaf 4 ''http://p2/precommit'' (JObj [(''txid'', JStr ''t1'')]))
   \<and> isl (post_json net_p2_deaf 5 ''http://p2/precommit'' (JObj [(''txid'', JStr ''t1'')]))
   \<and> isl (post_json net_p2_deaf 6 ''http://p2/precommit'' (JObj [(''txid'', JStr ''t1'')]))
   \<and> broadcast_events ''COORD'' net_p2_deaf ''/precommit'' ''t1'' 3
         ([''http://p1''] @ ''http://p2'' # [''http://p3''])
       = broadcast_events ''COORD'' net_p2_deaf ''/precommit'' ''t1'' 3 [''http://p1'']
         @ gave_up_events ''COORD'' ''/precommit'' ''t1'' ''http://p2''
         @ broadcast_events ''COORD'' net_p2_deaf ''/precommit'' ''t1'' 7 [''http://p3'']
   \<and> (\<exists>w' r. three_pc net_p2_deaf w_boot ''t1'' (JObj []) = Inr (w', r)
        \<and> r_decision r = ''COMMIT''
        \<and> map_option tx_state (stored w' ''t1'') = Some ''DONE''
        \<and> trace w' = [Wal ''t1 CAN_COMMIT_SENT {}'']
            @ vote_rpcs ''/can_commit'' ''t1'' (JObj []) [''http://p1'', ''http://p2'', ''http://p3'']
            @ [Wal ''t1 PRECOMMIT_SENT'', Rpc ''http://p1/precommit'' (JObj [(''txid'', JStr ''t1'')])]
            @ gave_up_events ''COORD'' ''/precommit'' ''t1'' ''http://p2''
            @ [Rpc ''http://p3/precommit'' (JObj [(''txid'', JStr ''t1'')]), Sleep 2000, Wal ''t1 DOCOMMIT_SENT'',
               Rpc ''http://p1/commit'' (JObj [(''txid'', JStr ''t1'')])]
            @ gave_up_events ''COORD'' ''/commit'' ''t1'' ''http://p2''
            @ [Rpc ''http://p3/commit'' (JObj [(''txid'', JStr ''t1'')]), Wal ''t1 DONE''])
   \<and> (\<exists>w' r. three_pc net_p2_down w_boot ''t1'' (JObj []) = Inr (w', r)
        \<and> r_decision r = ''ABORT''
        \<and> map_option tx_state (stored w' ''t1'') = Some ''DONE''
        \<and> trace w' = [Wal ''t1 CAN_COMMIT_SENT {}'']
            @ vote_rpcs ''/can_commit'' ''t1'' (JObj []) [''http://p1'', ''http://p2'', ''http://p3'']
            @ [Wal (''t1 ABORT_SENT '' @ py_str (votes_json (r_votes r))),
               Rpc ''http://p1/abort'' (JObj [(''txid'', JStr ''t1'')])]
            @ gave_up_events ''COORD'' ''/abort'' ''t1'' ''http://p2''
            @ [Rpc ''http://p3/abort'' (JObj [(''txid'', JStr ''t1'')]), Wal ''t1 DONE''])"
proof -
  have c: "calls w_boot = 0" "trace w_boot = []" "NODE_ID w_boot = ''COORD''"
      "PARTICIPANTS w_boot = [''http://p1'', ''http://p2'', ''http://p3'']"
    by (simp_all add: w_boot_def)
  have u: "py_rstrip ''/'' ''http://p2/'' @ ''/abort'' = ''http://p2/abort''"
      "py_rstrip ''/'' ''http://p2'' @ ''/precommit'' = ''http://p2/precommit''"
    by code_simp+
  have s: "py_str (JObj []) = ''{}''" by code_simp
  have h1: "isl (post_json net_down 0 ''http://p2/abort'' (JObj [(''txid'', JStr ''t1'')]))"
    and h2: "isl (post_json net_down 1 ''http://p2/abort'' (JObj [(''txid'', JStr ''t1'')]))"
    and h3: "isl (post_json net_down 2 ''http://p2/abort'' (JObj [(''txid'', JStr ''t1'')]))"
    by (simp_all add: post_json_def net_down_def)
  have h': "isl (post_json net_down (calls w_boot) (py_rstrip ''/'' ''http://p2/'' @ ''/abort'')
               (JObj [(''txid'', JStr ''t1'')]))
      \<and> isl (post_json net_down (calls w_boot + 1) (py_rstrip ''/'' ''http://p2/'' @ ''/abort'')
               (JObj [(''txid'', JStr ''t1'')]))
      \<and> isl (post_json net_down (calls w_boot + 2) (py_rstrip ''/'' ''http://p2/'' @ ''/abort'')
               (JObj [(''txid'', JStr ''t1'')]))"
    by (simp add: post_json_def net_down_def)
  have all: "\<forall>n url pl. isl (post_json net_down n url pl)"
    by (simp add: post_json_def net_down_def)
  note t = delivery_retries[where net = net_down and w = w_boot and p = "''http://p2/''"
      and endpoint = "''/abort''" and txid = "''t1''" and op = "JObj []"]
  have "deliver net_down ''/abort'' ''t1'' ''http://p2/'' w_boot =
          w_boot\<lparr>calls := calls w_boot + 3,
            trace := trace w_boot @ gave_up_events (NODE_ID w_boot) ''/abort'' ''t1'' ''http://p2/''\<rparr>"
    using t h' by blast
  then have d: "deliver net_down ''/abort'' ''t1'' ''http://p2/'' w_boot =
       w_boot\<lparr>calls := 3,
         trace := [Rpc ''http://p2/abort'' (JObj [(''txid'', JStr ''t1'')]), Sleep 500,
                   Rpc ''http://p2/abort'' (JObj [(''txid'', JStr ''t1'')]), Sleep 500,
                   Rpc ''http://p2/abort'' (JObj [(''txid'', JStr ''t1'')]), Sleep 500,
                   Print ''[COORD] Failed to send /abort to http://p2/ after 3 retries'']\<rparr>"
    by (simp add: c u gave_up_events_def)
  have "\<exists>w' r. two_pc net_down w_boot ''t1'' (JObj []) = Inr (w', r)
        \<and> trace w' = trace w_boot @ [Wal (''t1'' @ '' PREPARE_SENT '' @ py_str (JObj []))]
            @ vote_rpcs ''/prepare'' ''t1'' (JObj []) (PARTICIPANTS w_boot)
            @ [Wal (''t1'' @ '' '' @ r_decision r @ ''_SENT '' @ py_str (votes_json (r_votes r)))]
            @ concat (map (gave_up_events (NODE_ID w_boot) ''/abort'' ''t1'') (PARTICIPANTS w_boot))
            @ [Wal (''t1'' @ '' DONE'')]"
    using t all by blast
  then have r1: "(\<exists>w' r. two_pc net_down w_boot ''t1'' (JObj []) = Inr (w', r)
        \<and> trace w' = [Wal ''t1 PREPARE_SENT {}'']
            @ vote_rpcs ''/prepare'' ''t1'' (JObj []) [''http://p1'', ''http://p2'', ''http://p3'']
            @ [Wal (''t1 '' @ r_decision r @ ''_SENT '' @ py_str (votes_json (r_votes r)))]
            @ concat (map (gave_up_events ''COORD'' ''/abort'' ''t1'') [''http://p1'', ''http://p2'', ''http://p3''])
            @ [Wal ''t1 DONE''])"
    by (simp add: c s)
  have k1: "isl (post_json net_p2_deaf 4 ''http://p2/precommit'' (JObj [(''txid'', JStr ''t1'')]))"
    and k2: "isl (post_json net_p2_deaf 5 ''http://p2/precommit'' (JObj [(''txid'', JStr ''t1'')]))"
    and k3: "isl (post_json net_p2_deaf 6 ''http://p2/precommit'' (JObj [(''txid'', JStr ''t1'')]))"
    by code_simp+
  have m: "(4::nat) = 3 + rpcs (broadcast_events ''COORD'' net_p2_deaf ''/precommit'' ''t1'' 3
                                 [''http://p1''])"
    by code_simp
  note t2 = delivery_retries[where net = net_p2_deaf and w = w_boot and p = "''http://p2''"
      and endpoint = "''/precommit''" and txid = "''t1''" and op = "JObj []"
      and node = "''COORD''" and m = 4 and n = 3 and qs = "[''http://p1'']"
      and rs = "[''http://p3'']"]
  have b: "broadcast_events ''COORD'' net_p2_deaf ''/precommit'' ''t1'' 3
         ([''http://p1''] @ ''http://p2'' # [''http://p3''])
       = broadcast_events ''COORD'' net_p2_deaf ''/precommit'' ''t1'' 3 [''http://p1'']
         @ gave_up_events ''COORD'' ''/precommit'' ''t1'' ''http://p2''
         @ broadcast_events ''COORD'' net_p2_deaf ''/precommit'' ''t1'' 7 [''http://p3'']"
    using t2 k1 k2 k3 m by (simp add: u)
  have dec: "map_option r_decision (returned (three_pc net_p2_deaf w_boot ''t1'' (JObj [])))
      = Some ''COMMIT''"
    by code_simp
  have P: "broadcast_events (NODE_ID w_boot) net_p2_deaf ''/precommit'' ''t1''
             (calls w_boot + length (PARTICIPANTS w_boot)) (PARTICIPANTS w_boot)
           = [Rpc ''http://p1/precommit'' (JObj [(''txid'', JStr ''t1'')])]
             @ gave_up_events ''COORD'' ''/precommit'' ''t1'' ''http://p2''
             @ [Rpc ''http://p3/precommit'' (JObj [(''txid'', JStr ''t1'')])]"
    using b by (simp add: c) code_simp
  have C: "broadcast_events (NODE_ID w_boot) net_p2_deaf ''/commit'' ''t1''
             (calls w_boot + length (PARTICIPANTS w_boot)
              + rpcs (broadcast_events (NODE_ID w_boot) net_p2_deaf ''/precommit'' ''t1''
                        (calls w_boot + length (PARTICIPANTS w_boot)) (PARTICIPANTS w_boot)))
             (PARTICIPANTS w_boot)
           = [Rpc ''http://p1/commit'' (JObj [(''txid'', JStr ''t1'')])]
             @ gave_up_events ''COORD'' ''/commit'' ''t1'' ''http://p2''
             @ [Rpc ''http://p3/commit'' (JObj [(''txid'', JStr ''t1'')])]"
    by code_simp
  from t2 obtain w2 r2 where run2: "three_pc net_p2_deaf w_boot ''t1'' (JObj []) = Inr (w2, r2)"
    and st2: "map_option tx_state (stored w2 ''t1'') = Some ''DONE''"
    and tr2: "trace w2 = trace w_boot @
            (if r_decision r2 = ''COMMIT''
             then [Wal (''t1'' @ '' CAN_COMMIT_SENT '' @ py_str (JObj []))]
               @ vote_rpcs ''/can_commit'' ''t1'' (JObj []) (PARTICIPANTS w_boot)
               @ [Wal (''t1'' @ '' PRECOMMIT_SENT'')]
               @ broadcast_events (NODE_ID w_boot) net_p2_deaf ''/precommit'' ''t1''
                   (calls w_boot + length (PARTICIPANTS w_boot)) (PARTICIPANTS w_boot)
               @ [Sleep 2000, Wal (''t1'' @ '' DOCOMMIT_SENT'')]
               @ broadcast_events (NODE_ID w_boot) net_p2_deaf ''/commit'' ''t1''
                   (calls w_boot + length (PARTICIPANTS w_boot)
                    + rpcs (broadcast_events (NODE_ID w_boot) net_p2_deaf ''/precommit'' ''t1''
                              (calls w_boot + length (PARTICIPANTS w_boot)) (PARTICIPANTS w_boot)))
                   (PARTICIPANTS w_boot)
               @ [Wal (''t1'' @ '' DONE'')]
             else [Wal (''t1'' @ '' CAN_COMMIT_SENT '' @ py_str (JObj []))]
               @ vote_rpcs ''/can_commit'' ''t1'' (JObj []) (PARTICIPANTS w_boot)
               @ [Wal (''t1'' @ '' ABORT_SENT '' @ py_str (votes_json (r_votes r2)))]
               @ broadcast_events (NODE_ID w_boot) net_p2_deaf ''/abort'' ''t1''
                   (calls w_boot + length (PARTICIPANTS w_boot)) (PARTICIPANTS w_boot)
               @ [Wal (''t1'' @ '' DONE'')])"
    by blast
  have d2: "r_decision r2 = ''COMMIT''" using dec run2 by (simp add: returned_def)
  have r2: "(\<exists>w' r. three_pc net_p2_deaf w_boot ''t1'' (JObj []) = Inr (w', r)
        \<and> r_decision r = ''COMMIT''
        \<and> map_option tx_state (stored w' ''t1'') = Some ''DONE''
        \<and> trace w' = [Wal ''t1 CAN_COMMIT_SENT {}'']
            @ vote_rpcs ''/can_commit'' ''t1'' (JObj []) [''http://p1'', ''http://p2'', ''http://p3'']
            @ [Wal ''t1 PRECOMMIT_SENT'', Rpc ''http://p1/precommit'' (JObj [(''txid'', JStr ''t1'')])]
            @ gave_up_events ''COORD'' ''/precommit'' ''t1'' ''http://p2''
            @ [Rpc ''http://p3/precommit'' (JObj [(''txid'', JStr ''t1'')]), Sleep 2000, Wal ''t1 DOCOMMIT_SENT'',
               Rpc ''http://p1/commit'' (JObj [(''txid'', JStr ''t1'')])]
            @ gave_up_events ''COORD'' ''/commit'' ''t1'' ''http://p2''
            @ [Rpc ''http://p3/commit'' (JObj [(''txid'', JStr ''t1'')]), Wal ''t1 DONE''])"
    using run2 st2 d2 tr2[unfolded C, unfolded P] by (simp add: c s)
  note t3 = delivery_retries[where net = net_p2_down and w = w_boot and txid = "''t1''"
      and op = "JObj []"]
  have dec3: "map_option r_decision (returned (three_pc net_p2_down w_boot ''t1'' (JObj [])))
      = Some ''ABORT''"
    by code_simp
  have A: "broadcast_events (NODE_ID w_boot) net_p2_down ''/abort'' ''t1''
             (calls w_boot + length (PARTICIPANTS w_boot)) (PARTICIPANTS w_boot)
           = [Rpc ''http://p1/abort'' (JObj [(''txid'', JStr ''t1'')])]
             @ gave_up_events ''COORD'' ''/abort'' ''t1'' ''http://p2''
             @ [Rpc ''http://p3/abort'' (JObj [(''txid'', JStr ''t1'')])]"
    by code_simp
  from t3 obtain w3 r3 where run3: "three_pc net_p2_down w_boot ''t1'' (JObj []) = Inr (w3, r3)"
    and st3: "map_option tx_state (stored w3 ''t1'') = Some ''DONE''"
    and tr3: "trace w3 = trace w_boot @
            (if r_decision r3 = ''COMMIT''
             then [Wal (''t1'' @ '' CAN_COMMIT_SENT '' @ py_str (JObj []))]
               @ vote_rpcs ''/can_commit'' ''t1'' (JObj []) (PARTICIPANTS w_boot)
               @ [Wal (''t1'' @ '' PRECOMMIT_SENT'')]
               @ broadcast_events (NODE_ID w_boot) net_p2_down ''/precommit'' ''t1''
                   (calls w_boot + length (PARTICIPANTS w_boot)) (PARTICIPANTS w_boot)
               @ [Sleep 2000, Wal (''t1'' @ '' DOCOMMIT_SENT'')]
               @ broadcast_events (NODE_ID w_boot) net_p2_down ''/commit'' ''t1''
                   (calls w_boot + length (PARTICIPANTS w_boot)
                    + rpcs (broadcast_events (NODE_ID w_boot) net_p2_down ''/precommit'' ''t1''
                              (calls w_boot + length (PARTICIPANTS w_boot)) (PARTICIPANTS w_boot)))
                   (PARTICIPANTS w_boot)
               @ [Wal (''t1'' @ '' DONE'')]
             else [Wal (''t1'' @ '' CAN_COMMIT_SENT '' @ py_str (JObj []))]
               @ vote_rpcs ''/can_commit'' ''t1'' (JObj []) (PARTICIPANTS w_boot)
               @ [Wal (''t1'' @ '' ABORT_SENT '' @ py_str (votes_json (r_votes r3)))]
               @ broadcast_events (NODE_ID w_boot) net_p2_down ''/abort'' ''t1''
                   (calls w_boot + length (PARTICIPANTS w_boot)) (PARTICIPANTS w_boot)
               @ [Wal (''t1'' @ '' DONE'')])"
    by blast
  have d3: "r_decision r3 = ''ABORT''" using dec3 run3 by (simp add: returned_def)
  have r3: "(\<exists>w' r. three_pc net_p2_down w_boot ''t1'' (JObj []) = Inr (w', r)
        \<and> r_decision r = ''ABORT''
        \<and> map_option tx_state (stored w' ''t1'') = Some ''DONE''
        \<and> trace w' = [Wal ''t1 CAN_COMMIT_SENT {}'']
            @ vote_rpcs ''/can_commit'' ''t1'' (JObj []) [''http://p1'', ''http://p2'', ''http://p3'']
            @ [Wal (''t1 ABORT_SENT '' @ py_str (votes_json (r_votes r))),
               Rpc ''http://p1/abort'' (JObj [(''txid'', JStr ''t1'')])]
            @ gave_up_events ''COORD'' ''/abort'' ''t1'' ''http://p2''
            @ [Rpc ''http://p3/abort'' (JObj [(''txid'', JStr ''t1'')]), Wal ''t1 DONE''])"
    using run3 st3 d3 tr3 unfolding A by (simp add: c s)
  show ?thesis
    by (intro conjI) (rule h1 h2 h3 d all r1 k1 k2 k3 b r2 r3)+
qed

text \<open>
  C8, as stated, fails when a participant declares a vote other than YES or NO: the vote
  \<open>maybe\<close> is recorded as MAYBE, not as NO.
\<close>

theorem votes_recorded_verbatim_counterexample:
  "map_option r_votes (returned (two_pc net_maybe w_boot ''t1'' (JObj [])))
     = Some [(''http://p1'', ''MAYBE''), (''http://p2'', ''MAYBE''), (''http://p3'', ''MAYBE'')]"
  by code_simp

text \<open>
  C8, as amended. In every run of \<open>two_pc\<close> and of \<open>three_pc\<close> the votes map
  that is returned is the one stored; it has exactly one entry for every configured
  participant, and the value of a participant is the vote of the last request of the
  voting phase that was sent to it. The vote of a request is NO_TIMEOUT when the request
  raised (connection failure, timeout, error status, a body that is not JSON) or the
  reply is not a JSON object; NO when the reply is an object without a \<open>vote\<close>
  field; and otherwise the upper-cased \<open>str()\<close> of that field, whatever it says.
  The decision is COMMIT exactly when the vote of every request is YES and ABORT exactly
  when the vote of some request is not YES: any other text counts as a refusal.
\<close>

theorem votes_recorded:
  "(\<exists>w' r. two_pc net w txid op = Inr (w', r)
      \<and> map_option tx_votes (stored w' txid) = Some (r_votes r)
      \<and> set (map fst (r_votes r)) = set (PARTICIPANTS w)
      \<and> distinct (map fst (r_votes r))
      \<and> (\<forall>p\<in>set (PARTICIPANTS w). \<exists>i<length (PARTICIPANTS w).
            PARTICIPANTS w ! i = p
            \<and> (\<forall>j<length (PARTICIPANTS w). PARTICIPANTS w ! j = p \<longrightarrow> j \<le> i)
            \<and> dict_get (r_votes r) p = Some (ballot net ''/prepare'' txid op (calls w + i) p))
      \<and> (\<forall>pv\<in>set (r_votes r). \<exists>i<length (PARTICIPANTS w).
            fst pv = PARTICIPANTS w ! i
            \<and> snd pv = ballot net ''/prepare'' txid op (calls w + i) (PARTICIPANTS w ! i))
      \<and> (r_decision r = ''COMMIT''
           \<longleftrightarrow> (\<forall>i<length (PARTICIPANTS w).
                  ballot net ''/prepare'' txid op (calls w + i) (PARTICIPANTS w ! i) = ''YES''))
      \<and> (r_decision r = ''ABORT''
           \<longleftrightarrow> (\<exists>i<length (PARTICIPANTS w).
                  ballot net ''/prepare'' txid op (calls w + i) (PARTICIPANTS w ! i) \<noteq> ''YES'')))
   \<and> (\<exists>w' r. three_pc net w txid op = Inr (w', r)
      \<and> map_option tx_votes (stored w' txid) = Some (r_votes r)
      \<and> set (map fst (r_votes r)) = set (PARTICIPANTS w)
      \<and> distinct (map fst (r_votes r))
      \<and> (\<forall>p\<in>set (PARTICIPANTS w). \<exists>i<length (PARTICIPANTS w).
            PARTICIPANTS w ! i = p
            \<and> (\<forall>j<length (PARTICIPANTS w). PARTICIPANTS w ! j = p \<longrightarrow> j \<le> i)
            \<and> dict_get (r_votes r) p = Some (ballot net ''/can_commit'' txid op (calls w + i) p))
      \<and> (\<forall>pv\<in>set (r_votes r). \<exists>i<length (PARTICIPANTS w).
            fst pv = PARTICIPANTS w ! i
            \<and> snd pv = ballot net ''/can_commit'' txid op (calls w + i) (PARTICIPANTS w ! i))
      \<and> (r_decision r = ''COMMIT''
           \<longleftrightarrow> (\<forall>i<length (PARTICIPANTS w).
                  ballot net ''/can_commit'' txid op (calls w + i) (PARTICIPANTS w ! i) = ''YES''))
      \<and> (r_decision r = ''ABORT''
           \<longleftrightarrow> (\<exists>i<length (PARTICIPANTS w).
                  ballot net ''/can_commit'' txid op (calls w + i) (PARTICIPANTS w ! i) \<noteq> ''YES'')))
   \<and> (isl (post_json net n (py_rstrip ''/'' p @ endpoint) (vote_payload txid op))
        \<longrightarrow> ballot net endpoint txid op n p = ''NO_TIMEOUT'')
   \<and> (\<forall>status resp.
        post_json net n (py_rstrip ''/'' p @ endpoint) (vote_payload txid op) = Inr (status, resp)
        \<and> (\<forall>kvs. resp \<noteq> JObj kvs)
        \<longrightarrow> ballot net endpoint txid op n p = ''NO_TIMEOUT'')
   \<and> (\<forall>status kvs.
        post_json net n (py_rstrip ''/'' p @ endpoint) (vote_payload txid op) = Inr (status, JObj kvs)
        \<longrightarrow> ballot net endpoint txid op n p
            = (case dict_get kvs ''vote'' of
                 None \<Rightarrow> ''NO'' | Some x \<Rightarrow> py_upper (py_str x)))"
proof -
  have two: "(\<exists>w' r. two_pc net w txid op = Inr (w', r)
      \<and> map_option tx_votes (stored w' txid) = Some (r_votes r)
      \<and> set (map fst (r_votes r)) = set (PARTICIPANTS w)
      \<and> distinct (map fst (r_votes r))
      \<and> (\<forall>p\<in>set (PARTICIPANTS w). \<exists>i<length (PARTICIPANTS w).
            PARTICIPANTS w ! i = p
            \<and> (\<forall>j<length (PARTICIPANTS w). PARTICIPANTS w ! j = p \<longrightarrow> j \<le> i)
            \<and> dict_get (r_votes r) p = Some (ballot net ''/prepare'' txid op (calls w + i) p))
      \<and> (\<forall>pv\<in>set (r_votes r). \<exists>i<length (PARTICIPANTS w).
            fst pv = PARTICIPANTS w ! i
            \<and> snd pv = ballot net ''/prepare'' txid op (calls w + i) (PARTICIPANTS w ! i))
      \<and> (r_decision r = ''COMMIT''
           \<longleftrightarrow> (\<forall>i<length (PARTICIPANTS w).
                  ballot net ''/prepare'' txid op (calls w + i) (PARTICIPANTS w ! i) = ''YES''))
      \<and> (r_decision r = ''ABORT''
           \<longleftrightarrow> (\<exists>i<length (PARTICIPANTS w).
                  ballot net ''/prepare'' txid op (calls w + i) (PARTICIPANTS w ! i) \<noteq> ''YES'')))"
  proof -
    define bs where "bs = ballots net ''/prepare'' txid op (calls w) (PARTICIPANTS w)"
    define votes where "votes = record_all [] bs"
    define d where "d = (if all_yes_of bs then ''COMMIT'' else ''ABORT'')"
    obtain w' r where run: "two_pc net w txid op = Inr (w', r)"
      and st: "map_option tx_votes (stored w' txid) = Some votes"
      and rv: "r_votes r = votes" and rd: "r_decision r = d"
      by (cases "all_yes_of bs")
         (simp_all add: two_pc_eq Let_def stored_def dict_get_dict_set bs_def votes_def d_def)
    have k: "set (map fst votes) = set (PARTICIPANTS w)" "distinct (map fst votes)"
      by (simp_all add: votes_def bs_def record_all_key_set ballots_key_set
          record_all_keys_distinct)
    have l: "\<forall>p\<in>set (PARTICIPANTS w). \<exists>i<length (PARTICIPANTS w).
            PARTICIPANTS w ! i = p
            \<and> (\<forall>j<length (PARTICIPANTS w). PARTICIPANTS w ! j = p \<longrightarrow> j \<le> i)
            \<and> dict_get votes p = Some (ballot net ''/prepare'' txid op (calls w + i) p)"
      unfolding votes_def bs_def using recorded_last_ballot by blast
    have m: "\<forall>pv\<in>set votes. \<exists>i<length (PARTICIPANTS w).
            fst pv = PARTICIPANTS w ! i
            \<and> snd pv = ballot net ''/prepare'' txid op (calls w + i) (PARTICIPANTS w ! i)"
      unfolding votes_def bs_def using recorded_is_ballot by blast
    have y: "all_yes_of bs \<longleftrightarrow> (\<forall>i<length (PARTICIPANTS w).
                  ballot net ''/prepare'' txid op (calls w + i) (PARTICIPANTS w ! i) = ''YES'')"
      unfolding bs_def by (rule all_yes_of_ballots)
    have c: "d = ''COMMIT'' \<longleftrightarrow> (\<forall>i<length (PARTICIPANTS w).
                  ballot net ''/prepare'' txid op (calls w + i) (PARTICIPANTS w ! i) = ''YES'')"
      using y by (simp add: d_def)
    have a: "d = ''ABORT'' \<longleftrightarrow> (\<exists>i<length (PARTICIPANTS w).
                  ballot net ''/prepare'' txid op (calls w + i) (PARTICIPANTS w ! i) \<noteq> ''YES'')"
      using y by (auto simp: d_def)
    show ?thesis
      using run st k l m c a unfolding rv[symmetric] rd[symmetric] by blast
  qed
  have three: "(\<exists>w' r. three_pc net w txid op = Inr (w', r)
      \<and> map_option tx_votes (stored w' txid) = Some (r_votes r)
      \<and> set (map fst (r_votes r)) = set (PARTICIPANTS w)
      \<and> distinct (map fst (r_votes r))
      \<and> (\<forall>p\<in>set (PARTICIPANTS w). \<exists>i<length (PARTICIPANTS w).
            PARTICIPANTS w ! i = p
            \<and> (\<forall>j<length (PARTICIPANTS w). PARTICIPANTS w ! j = p \<longrightarrow> j \<le> i)
            \<and> dict_get (r_votes r) p = Some (ballot net ''/can_commit'' txid op (calls w + i) p))
      \<and> (\<forall>pv\<in>set (r_votes r). \<exists>i<length (PARTICIPANTS w).
            fst pv = PARTICIPANTS w ! i
            \<and> snd pv = ballot net ''/can_commit'' txid op (calls w + i) (PARTICIPANTS w ! i))
      \<and> (r_decision r = ''COMMIT''
           \<longleftrightarrow> (\<forall>i<length (PARTICIPANTS w).
                  ballot net ''/can_commit'' txid op (calls w + i) (PARTICIPANTS w ! i) = ''YES''))
      \<and> (r_decision r = ''ABORT''
           \<longleftrightarrow> (\<exists>i<length (PARTICIPANTS w).
                  ballot net ''/can_commit'' txid op (calls w + i) (PARTICIPANTS w ! i) \<noteq> ''YES'')))"
  proof -
    define bs where "bs = ballots net ''/can_commit'' txid op (calls w) (PARTICIPANTS w)"
    define votes where "votes = record_all [] bs"
    define d where "d = (if all_yes_of bs then ''COMMIT'' else ''ABORT'')"
    obtain w' r where run: "three_pc net w txid op = Inr (w', r)"
      and st: "map_option tx_votes (stored w' txid) = Some votes"
      and rv: "r_votes r = votes" and rd: "r_decision r = d"
      by (cases "all_yes_of bs")
         (simp_all add: three_pc_eq Let_def stored_def dict_get_dict_set bs_def votes_def d_def)
    have k: "set (map fst votes) = set (PARTICIPANTS w)" "distinct (map fst votes)"
      by (simp_all add: votes_def bs_def record_all_key_set ballots_key_set
          record_all_keys_distinct)
    have l: "\<forall>p\<in>set (PARTICIPANTS w). \<exists>i<length (PARTICIPANTS w).
            PARTICIPANTS w ! i = p
            \<and> (\<forall>j<length (PARTICIPANTS w). PARTICIPANTS w ! j = p \<longrightarrow> j \<le> i)
            \<and> dict_get votes p = Some (ballot net ''/can_commit'' txid op (calls w + i) p)"
      unfolding votes_def bs_def using recorded_last_ballot by blast
    have m: "\<forall>pv\<in>set votes. \<exists>i<length (PARTICIPANTS w).
            fst pv = PARTICIPANTS w ! i
            \<and> snd pv = ballot net ''/can_commit'' txid op (calls w + i) (PARTICIPANTS w ! i)"
      unfolding votes_def bs_def using recorded_is_ballot by blast
    have y: "all_yes_of bs \<longleftrightarrow> (\<forall>i<length (PARTICIPANTS w).
                  ballot net ''/can_commit'' txid op (calls w + i) (PARTICIPANTS w ! i) = ''YES'')"
      unfolding bs_def by (rule all_yes_of_ballots)
    have c: "d = ''COMMIT'' \<longleftrightarrow> (\<forall>i<length (PARTICIPANTS w).
                  ballot net ''/can_commit'' txid op (calls w + i) (PARTICIPANTS w ! i) = ''YES'')"
      using y by (simp add: d_def)
    have a: "d = ''ABORT'' \<longleftrightarrow> (\<exists>i<length (PARTICIPANTS w).
                  ballot net ''/can_commit'' txid op (calls w + i) (PARTICIPANTS w ! i) \<noteq> ''YES'')"
      using y by (auto simp: d_def)
    show ?thesis
      using run st k l m c a unfolding rv[symmetric] rd[symmetric] by blast
  qed
  have b1: "(isl (post_json net n (py_rstrip ''/'' p @ endpoint) (vote_payload txid op))
        \<longrightarrow> ballot net endpoint txid op n p = ''NO_TIMEOUT'')"
    using ballot_raised by blast
  have b2: "(\<forall>status resp.
        post_json net n (py_rstrip ''/'' p @ endpoint) (vote_payload txid op) = Inr (status, resp)
        \<and> (\<forall>kvs. resp \<noteq> JObj kvs)
        \<longrightarrow> ballot net endpoint txid op n p = ''NO_TIMEOUT'')"
    using ballot_not_object by blast
  have b3: "(\<forall>status kvs.
        post_json net n (py_rstrip ''/'' p @ endpoint) (vote_payload txid op) = Inr (status, JObj kvs)
        \<longrightarrow> ballot net endpoint txid op n p
            = (case dict_get kvs ''vote'' of
                 None \<Rightarrow> ''NO'' | Some x \<Rightarrow> py_upper (py_str x)))"
    using ballot_object by blast
  show ?thesis
    by (rule conjI[OF two conjI[OF three conjI[OF b1 conjI[OF b2 b3]]]])
qed

theorem votes_recorded_witness:
  "isl (post_json net_down 0 ''http://p1/prepare'' (vote_payload ''t1'' (JObj []))) \<and> ballot net_down ''/prepare'' ''t1'' (JObj []) 0 ''http://p1'' = ''NO_TIMEOUT''
   \<and> post_json net_not_object 0 ''http://p1/prepare'' (vote_payload ''t1'' (JObj [])) = Inr (200, JList [JStr ''YES''])
   \<and> ballot net_not_object ''/prepare'' ''t1'' (JObj []) 0 ''http://p1'' = ''NO_TIMEOUT''
   \<and> post_json net_no_vote 0 ''http://p1/prepare'' (vote_payload ''t1'' (JObj [])) = Inr (200, JObj [])
   \<and> ballot net_no_vote ''/prepare'' ''t1'' (JObj []) 0 ''http://p1'' = ''NO''
   \<and> post_json net_maybe 0 ''http://p1/prepare'' (vote_payload ''t1'' (JObj [])) = Inr (200, JObj [(''vote'', JStr ''maybe'')])
   \<and> ballot net_maybe ''/prepare'' ''t1'' (JObj []) 0 ''http://p1'' = ''MAYBE''
   \<and> (\<exists>w' r. two_pc net_maybe w_boot ''t1'' (JObj []) = Inr (w', r)
        \<and> r_votes r = [(''http://p1'', ''MAYBE''), (''http://p2'', ''MAYBE''), (''http://p3'', ''MAYBE'')]
        \<and> map_option tx_votes (stored w' ''t1'') = Some (r_votes r)
        \<and> dict_get (r_votes r) ''http://p2'' = Some ''MAYBE''
        \<and> r_decision r = ''ABORT'')
   \<and> (\<exists>w' r. three_pc net_maybe w_boot ''t1'' (JObj []) = Inr (w', r)
        \<and> r_votes r = [(''http://p1'', ''MAYBE''), (''http://p2'', ''MAYBE''), (''http://p3'', ''MAYBE'')]
        \<and> map_option tx_votes (stored w' ''t1'') = Some (r_votes r)
        \<and> r_decision r = ''ABORT'')"
proof -
  have u: "py_rstrip ''/'' ''http://p1'' @ ''/prepare'' = ''http://p1/prepare''" by code_simp
  have d1: "isl (post_json net_down 0 ''http://p1/prepare'' (vote_payload ''t1'' (JObj [])))" by (simp add: post_json_def net_down_def)
  have d2: "ballot net_down ''/prepare'' ''t1'' (JObj []) 0 ''http://p1'' = ''NO_TIMEOUT''"
    using votes_recorded[where net = net_down and endpoint = "''/prepare''" and txid = "''t1''"
        and op = "JObj []" and n = 0 and p = "''http://p1''"] d1
    unfolding u by blast
  have o1: "post_json net_not_object 0 ''http://p1/prepare'' (vote_payload ''t1'' (JObj [])) = Inr (200, JList [JStr ''YES''])" by code_simp
  have o2: "ballot net_not_object ''/prepare'' ''t1'' (JObj []) 0 ''http://p1'' = ''NO_TIMEOUT''"
    using votes_recorded[where net = net_not_object and endpoint = "''/prepare''"
        and txid = "''t1''" and op = "JObj []" and n = 0 and p = "''http://p1''"] o1
    unfolding u by blast
  have e1: "post_json net_no_vote 0 ''http://p1/prepare'' (vote_payload ''t1'' (JObj [])) = Inr (200, JObj [])" by code_simp
  have "ballot net_no_vote ''/prepare'' ''t1'' (JObj []) 0 ''http://p1''
      = (case dict_get [] ''vote'' of None \<Rightarrow> ''NO'' | Some x \<Rightarrow> py_upper (py_str x))"
    using votes_recorded[where net = net_no_vote and endpoint = "''/prepare''"
        and txid = "''t1''" and op = "JObj []" and n = 0 and p = "''http://p1''"] e1
    unfolding u by blast
  then have e2: "ballot net_no_vote ''/prepare'' ''t1'' (JObj []) 0 ''http://p1'' = ''NO''" by (simp add: dict_get_def)
  have m1: "post_json net_maybe 0 ''http://p1/prepare'' (vote_payload ''t1'' (JObj [])) = Inr (200, JObj [(''vote'', JStr ''maybe'')])" by code_simp
  have ev: "(case dict_get [(''vote'', JStr ''maybe'')] ''vote'' of
               None \<Rightarrow> ''NO'' | Some x \<Rightarrow> py_upper (py_str x)) = ''MAYBE''"
    by code_simp
  have "ballot net_maybe ''/prepare'' ''t1'' (JObj []) 0 ''http://p1''
      = (case dict_get [(''vote'', JStr ''maybe'')] ''vote'' of
           None \<Rightarrow> ''NO'' | Some x \<Rightarrow> py_upper (py_str x))"
    using votes_recorded[where net = net_maybe and endpoint = "''/prepare''"
        and txid = "''t1''" and op = "JObj []" and n = 0 and p = "''http://p1''"] m1
    unfolding u by blast
  then have m2: "ballot net_maybe ''/prepare'' ''t1'' (JObj []) 0 ''http://p1'' = ''MAYBE''" using ev by simp
  have r2: "(\<exists>w' r. two_pc net_maybe w_boot ''t1'' (JObj []) = Inr (w', r)
        \<and> r_votes r = [(''http://p1'', ''MAYBE''), (''http://p2'', ''MAYBE''), (''http://p3'', ''MAYBE'')]
        \<and> map_option tx_votes (stored w' ''t1'') = Some (r_votes r)
        \<and> dict_get (r_votes r) ''http://p2'' = Some ''MAYBE''
        \<and> r_decision r = ''ABORT'')"
  proof -
  note t_two_pc = votes_recorded[where net = net_maybe and w = w_boot and txid = "''t1''"
      and op = "JObj []" and endpoint = "''/prepare''" and n = 0 and p = "''http://p1''",
      THEN conjunct1]
  have v_two_pc: "map_option r_votes (returned (two_pc net_maybe w_boot ''t1'' (JObj []))) = Some [(''http://p1'', ''MAYBE''), (''http://p2'', ''MAYBE''), (''http://p3'', ''MAYBE'')]"
    by code_simp
  have n_two_pc: "0 < length (PARTICIPANTS w_boot)
      \<and> ballot net_maybe ''/prepare'' ''t1'' (JObj []) (calls w_boot + 0) (PARTICIPANTS w_boot ! 0)
          \<noteq> ''YES''"
    by code_simp
  from t_two_pc obtain w' r where run: "two_pc net_maybe w_boot ''t1'' (JObj []) = Inr (w', r)"
    and st: "map_option tx_votes (stored w' ''t1'') = Some (r_votes r)"
    and ab: "r_decision r = ''ABORT''
           \<longleftrightarrow> (\<exists>i<length (PARTICIPANTS w_boot).
                  ballot net_maybe ''/prepare'' ''t1'' (JObj []) (calls w_boot + i)
                    (PARTICIPANTS w_boot ! i) \<noteq> ''YES'')"
    by blast
  have rv: "r_votes r = [(''http://p1'', ''MAYBE''), (''http://p2'', ''MAYBE''), (''http://p3'', ''MAYBE'')]"
    using v_two_pc run by (simp add: returned_def)
  have rd: "r_decision r = ''ABORT''"
    using ab n_two_pc by blast
  have g: "(\<exists>w' r. two_pc net_maybe w_boot ''t1'' (JObj []) = Inr (w', r)
        \<and> r_votes r = [(''http://p1'', ''MAYBE''), (''http://p2'', ''MAYBE''), (''http://p3'', ''MAYBE'')]
        \<and> map_option tx_votes (stored w' ''t1'') = Some (r_votes r)
        \<and> dict_get (r_votes r) ''http://p2'' = Some ''MAYBE''
        \<and> r_decision r = ''ABORT'')"
    using run st rv rd by (simp add: dict_get_def)
    show ?thesis by (rule g)
  qed
  have r3: "(\<exists>w' r. three_pc net_maybe w_boot ''t1'' (JObj []) = Inr (w', r)
        \<and> r_votes r = [(''http://p1'', ''MAYBE''), (''http://p2'', ''MAYBE''), (''http://p3'', ''MAYBE'')]
        \<and> map_option tx_votes (stored w' ''t1'') = Some (r_votes r)
        \<and> r_decision r = ''ABORT'')"
  proof -
  note t_three_pc = votes_recorded[where net = net_maybe and w = w_boot and txid = "''t1''"
      and op = "JObj []" and endpoint = "''/prepare''" and n = 0 and p = "''http://p1''",
      THEN conjunct2, THEN conjunct1]
  have v_three_pc: "map_option r_votes (returned (three_pc net_maybe w_boot ''t1'' (JObj []))) = Some [(''http://p1'', ''MAYBE''), (''http://p2'', ''MAYBE''), (''http://p3'', ''MAYBE'')]"
    by code_simp
  have n_three_pc: "0 < length (PARTICIPANTS w_boot)
      \<and> ballot net_maybe ''/can_commit'' ''t1'' (JObj []) (calls w_boot + 0) (PARTICIPANTS w_boot ! 0)
          \<noteq> ''YES''"
    by code_simp
  from t_three_pc obtain w' r where run: "three_pc net_maybe w_boot ''t1'' (JObj []) = Inr (w', r)"
    and st: "map_option tx_votes (stored w' ''t1'') = Some (r_votes r)"
    and ab: "r_decision r = ''ABORT''
           \<longleftrightarrow> (\<exists>i<length (PARTICIPANTS w_boot).
                  ballot net_maybe ''/can_commit'' ''t1'' (JObj []) (calls w_boot + i)
                    (PARTICIPANTS w_boot ! i) \<noteq> ''YES'')"
    by blast
  have rv: "r_votes r = [(''http://p1'', ''MAYBE''), (''http://p2'', ''MAYBE''), (''http://p3'', ''MAYBE'')]"
    using v_three_pc run by (simp add: returned_def)
  have rd: "r_decision r = ''ABORT''"
    using ab n_three_pc by blast
  have g: "(\<exists>w' r. three_pc net_maybe w_boot ''t1'' (JObj []) = Inr (w', r)
        \<and> r_votes r = [(''http://p1'', ''MAYBE''), (''http://p2'', ''MAYBE''), (''http://p3'', ''MAYBE'')]
        \<and> map_option tx_votes (stored w' ''t1'') = Some (r_votes r)
        \<and> r_decision r = ''ABORT'')"
    using run st rv rd by (simp add: dict_get_def)
    show ?thesis by (rule g)
  qed
  show ?thesis
    by (intro conjI) (rule d1 d2 o1 o2 e1 e2 m1 m2 r2 r3)+
qed

text \<open>
  C9, as stated, fails: \<open>post_json\<close> has no handler, and a request that cannot be
  connected leaves it as the exception \<open>URLError\<close>.
\<close>

theorem post_json_raises_counterexample:
  "post_json net_down 0 ''http://p1/prepare'' (vote_payload ''t1'' (JObj [])) = Inl URLError"
  by (simp add: post_json_def net_down_def)

text \<open>
  C9, as amended. \<open>post_json\<close> raises exactly when the connection fails, the request
  times out, the status is an error or the body is not JSON; it is its callers that
  catch. In the voting loop a raised request records NO_TIMEOUT and clears
  \<open>all_yes\<close>; in a delivery loop it is followed by the sleep (and by the message after
  the last attempt) and the next attempt. No run of \<open>two_pc\<close> or \<open>three_pc\<close> raises.
\<close>

theorem post_json_raises_callers_catch:
  "(isl (post_json net n url pl)
      \<longleftrightarrow> (case net n url pl of
          Answer status (Some j) \<Rightarrow> \<not> (200 \<le> status \<and> status < 300)
        | _ \<Rightarrow> True))
   \<and> (isl (post_json net (calls w) (py_rstrip ''/'' p @ endpoint) (vote_payload txid op))
        \<longrightarrow> ask net endpoint txid op p (votes, all_yes, w)
            = (dict_set p ''NO_TIMEOUT'' votes, False,
               w\<lparr>calls := Suc (calls w),
                 trace := trace w
                   @ [Rpc (py_rstrip ''/'' p @ endpoint) (vote_payload txid op)]\<rparr>))
   \<and> (isl (post_json net (calls w) url pl)
        \<longrightarrow> attempts net url pl msg (Suc k) w
            = attempts net url pl msg k
                (w\<lparr>calls := Suc (calls w),
                   trace := trace w @ [Rpc url pl, Sleep 500]
                     @ (if k = 0 then [Print msg] else [])\<rparr>))
   \<and> (\<exists>w' r. two_pc net w txid op = Inr (w', r))
   \<and> (\<exists>w' r. three_pc net w txid op = Inr (w', r))"
  using post_json_isl[of net n url pl] ask_raised[of net w p endpoint txid op votes all_yes]
    attempts_raised[of net w url pl msg k]
    two_pc_returns[of net w txid op] three_pc_returns[of net w txid op]
  by blast

theorem post_json_raises_callers_catch_witness:
  "isl (post_json net_down (calls w_boot) (py_rstrip ''/'' ''http://p1'' @ ''/prepare'')
          (vote_payload ''t1'' (JObj [])))
   \<and> ask net_down ''/prepare'' ''t1'' (JObj []) ''http://p1'' ([], True, w_boot)
       = ([(''http://p1'', ''NO_TIMEOUT'')], False,
          w_boot\<lparr>calls := 1,
            trace := [Rpc ''http://p1/prepare'' (vote_payload ''t1'' (JObj []))]\<rparr>)
   \<and> attempts net_down ''http://p1/abort'' (JObj []) ''gave up'' 1 w_boot
       = w_boot\<lparr>calls := 1,
           trace := [Rpc ''http://p1/abort'' (JObj []), Sleep 500, Print ''gave up'']\<rparr>"
proof -
  have c: "calls w_boot = 0" "trace w_boot = []" by (simp_all add: w_boot_def)
  have u: "py_rstrip ''/'' ''http://p1'' @ ''/prepare'' = ''http://p1/prepare''" by code_simp
  have h1: "isl (post_json net_down (calls w_boot) (py_rstrip ''/'' ''http://p1'' @ ''/prepare'')
          (vote_payload ''t1'' (JObj [])))"
    by (simp add: post_json_def net_down_def)
  have h2: "isl (post_json net_down (calls w_boot) ''http://p1/abort'' (JObj []))"
    by (simp add: post_json_def net_down_def)
  note t = post_json_raises_callers_catch[of net_down "calls w_boot" "''http://p1/abort''" "JObj []"
      w_boot "''http://p1''" "''/prepare''" "''t1''" "JObj []" "[]" True "''gave up''" 0]
  have a: "ask net_down ''/prepare'' ''t1'' (JObj []) ''http://p1'' ([], True, w_boot)
       = ([(''http://p1'', ''NO_TIMEOUT'')], False,
          w_boot\<lparr>calls := 1,
            trace := [Rpc ''http://p1/prepare'' (vote_payload ''t1'' (JObj []))]\<rparr>)"
    using t h1 by (simp add: c u)
  have b: "attempts net_down ''http://p1/abort'' (JObj []) ''gave up'' 1 w_boot
       = w_boot\<lparr>calls := 1,
           trace := [Rpc ''http://p1/abort'' (JObj []), Sleep 500, Print ''gave up'']\<rparr>"
    using t h2 by (simp add: c)
  show ?thesis using h1 a b by blast
qed

text \<open>
  C10. Every run of \<open>two_pc\<close> and of \<open>three_pc\<close> returns, whatever the network
  does and whatever the decision is, and the result it returns has \<open>ok = True\<close>.
\<close>

theorem runs_return_ok:
  "(\<exists>w' r. two_pc net w txid op = Inr (w', r) \<and> ok r)
   \<and> (\<exists>w' r. three_pc net w txid op = Inr (w', r) \<and> ok r)"
  using two_pc_returns[of net w txid op] three_pc_returns[of net w txid op] by blast



end
